theory Spec2Isabelle
  imports Main "HOL-Library.Word" "HOL-Library.Sublist"
begin

section \<open>JavaScript strings\<close>

text \<open>
  A JavaScript string is a sequence of UTF-16 code units; \<open>length\<close> counts code units.
  String literals of the source are written with \<open>js\<close>.
\<close>

type_synonym jschar = "16 word"
type_synonym jsstring = "jschar list"

definition js :: "string \<Rightarrow> jsstring" where
  "js s = map (\<lambda>c. of_nat (of_char c)) s"

text \<open>
  \<open>String.prototype.trim\<close> removes the ECMAScript WhiteSpace and LineTerminator code
  points from both ends: TAB, LF, VT, FF, CR, SP, NBSP, U+1680, U+2000..U+200A, U+2028,
  U+2029, U+202F, U+205F, U+3000 and U+FEFF.
\<close>

definition isWhiteSpace :: "jschar \<Rightarrow> bool" where
  "isWhiteSpace c \<longleftrightarrow>
     c = 0x09 \<or> c = 0x0A \<or> c = 0x0B \<or> c = 0x0C \<or> c = 0x0D \<or> c = 0x20 \<or> c = 0xA0 \<or>
     c = 0x1680 \<or> (0x2000 \<le> c \<and> c \<le> 0x200A) \<or> c = 0x2028 \<or> c = 0x2029 \<or>
     c = 0x202F \<or> c = 0x205F \<or> c = 0x3000 \<or> c = 0xFEFF"

definition trim :: "jsstring \<Rightarrow> jsstring" where
  "trim s = rev (dropWhile isWhiteSpace (rev (dropWhile isWhiteSpace s)))"

section \<open>Data model (types/index.ts)\<close>

text \<open>
  A \<open>Date\<close> is its time value: the milliseconds since the epoch, or NaN for the invalid
  date (as \<open>new Date('x')\<close> gives), which is a \<open>Date\<close> object all the same.
\<close>

datatype Date = Instant int | InvalidDate

text \<open>The exceptions thrown by the runtime, the browser storage and the libraries.\<close>

datatype exn = TypeError | RangeError | SecurityError | QuotaExceededError | SyntaxError

datatype ChannelType = Public | Private

datatype MessageType = TextMessage | SystemMessage

datatype Theme = Light | Dark | System

record Channel =
  channel_id :: jsstring
  channel_name :: jsstring
  channel_description :: jsstring
  channel_type :: ChannelType
  channel_createdAt :: Date
  channel_memberCount :: int

record Message =
  message_id :: jsstring
  message_channelId :: jsstring
  message_userId :: jsstring
  message_content :: jsstring
  message_timestamp :: Date
  message_type :: MessageType
  message_editedAt :: "Date option"

text \<open>\<open>Omit<Message, 'id' | 'timestamp'>\<close>, the argument of \<open>addMessage\<close>.\<close>

record CreateMessage =
  create_channelId :: jsstring
  create_userId :: jsstring
  create_content :: jsstring
  create_type :: MessageType
  create_editedAt :: "Date option"

text \<open>The data part of \<open>AppState\<close>; the actions are the functions below.\<close>

record AppState =
  channels :: "Channel list"
  activeChannelId :: "jsstring option"
  messages :: "jsstring \<rightharpoonup> Message list"
  theme :: Theme
  sidebarOpen :: bool
  searchQuery :: jsstring
  isLoading :: bool
  error :: "jsstring option"

definition initialState :: AppState where
  "initialState = \<lparr> channels = [], activeChannelId = None, messages = Map.empty,
     theme = Light, sidebarOpen = True, searchQuery = [], isLoading = False, error = None \<rparr>"

section \<open>Validation (utils/typeGuards.ts)\<close>

definition validateMessageContent :: "jsstring \<Rightarrow> bool" where
  "validateMessageContent content \<longleftrightarrow> length (trim content) > 0 \<and> length content \<le> 2000"

text \<open>
  \<open>validateChannelId\<close>: the regular expression accepts the non-empty strings of lower-case
  ASCII letters, digits, hyphens and underscores.
\<close>

definition isChannelIdChar :: "jschar \<Rightarrow> bool" where
  "isChannelIdChar c \<longleftrightarrow>
     (0x61 \<le> c \<and> c \<le> 0x7A) \<or> (0x30 \<le> c \<and> c \<le> 0x39) \<or> c = 0x2D \<or> c = 0x5F"

definition validateChannelId :: "jsstring \<Rightarrow> bool" where
  "validateChannelId ident \<longleftrightarrow>
     (ident \<noteq> [] \<and> list_all isChannelIdChar ident) \<and> length ident \<ge> 2 \<and> length ident \<le> 50"

section \<open>The store: messages (stores/useAppStore.ts)\<close>

text \<open>
  What \<open>addMessage\<close> reads from its environment: the decimal rendering of \<open>Date.now()\<close>
  and the base-36 rendering of \<open>Math.random()\<close> used by \<open>generateId\<close>, and the instant
  \<open>new Date()\<close>.
\<close>

record Env =
  env_dateNow :: jsstring
  env_random36 :: jsstring
  env_newDate :: Date

text \<open>\<open>s.substr(start, len)\<close> for non-negative arguments.\<close>

definition substr :: "jsstring \<Rightarrow> nat \<Rightarrow> nat \<Rightarrow> jsstring" where
  "substr s start len = take len (drop start s)"

definition generateId :: "Env \<Rightarrow> jsstring" where
  "generateId env = js ''msg-'' @ env_dateNow env @ js ''-'' @ substr (env_random36 env) 2 9"

text \<open>
  \<open>state.messages\<close> is a plain object. The map \<open>messages\<close> holds its own properties; a
  key that is not an own property is looked up in \<open>Object.prototype\<close>, whose members are
  the keys below. An inherited member is a function or, for \<open>__proto__\<close>, an object: it
  is truthy and it is not iterable.
\<close>

definition objectPrototypeKeys :: "jsstring list" where
  "objectPrototypeKeys =
     [js ''constructor'', js ''__proto__'', js ''toString'', js ''toLocaleString'',
      js ''valueOf'', js ''hasOwnProperty'', js ''isPrototypeOf'', js ''propertyIsEnumerable'',
      js ''__defineGetter__'', js ''__defineSetter__'', js ''__lookupGetter__'',
      js ''__lookupSetter__'']"

datatype jsvalue = MessagesArray "Message list" | PrototypeMember

text \<open>\<open>obj[key]\<close>; \<open>None\<close> is undefined.\<close>

definition propertyGet :: "(jsstring \<rightharpoonup> Message list) \<Rightarrow> jsstring \<Rightarrow> jsvalue option" where
  "propertyGet obj key =
     (case obj key of
        Some ms \<Rightarrow> Some (MessagesArray ms)
      | None \<Rightarrow> if List.member objectPrototypeKeys key then Some PrototypeMember else None)"

text \<open>\<open>v || []\<close>: an array (also the empty one), a function and an object are truthy.\<close>

definition orEmptyArray :: "jsvalue option \<Rightarrow> jsvalue" where
  "orEmptyArray v = (case v of None \<Rightarrow> MessagesArray [] | Some x \<Rightarrow> x)"

text \<open>The array literal \<open>[...v, m]\<close>: spreading a value that is not iterable throws.\<close>

definition spreadAppend :: "jsvalue \<Rightarrow> Message \<Rightarrow> exn + Message list" where
  "spreadAppend v m =
     (case v of MessagesArray ms \<Rightarrow> Inr (ms @ [m]) | PrototypeMember \<Rightarrow> Inl TypeError)"

definition getChannelMessages :: "AppState \<Rightarrow> jsstring \<Rightarrow> jsvalue" where
  "getChannelMessages state channelId = orEmptyArray (propertyGet (messages state) channelId)"

text \<open>
  \<open>addMessage\<close> returns the next state, or the exception that leaves the updater passed to
  \<open>set\<close>: it reaches the caller of \<open>addMessage\<close> and the store keeps its state.
\<close>

definition addMessage ::
  "Env \<Rightarrow> jsstring \<Rightarrow> CreateMessage \<Rightarrow> AppState \<Rightarrow> exn + AppState" where
  "addMessage env channelId messageData state =
     (let content = create_content messageData;
          userId = create_userId messageData;
          type = create_type messageData
      in if \<not> validateMessageContent content
         then Inr (state\<lparr> error := Some (js ''Message content is invalid'') \<rparr>)
         else
           let newMessage = \<lparr> message_id = generateId env, message_channelId = channelId,
                 message_userId = userId, message_content = trim content,
                 message_timestamp = env_newDate env, message_type = type,
                 message_editedAt = None \<rparr>;
               channelMessages = orEmptyArray (propertyGet (messages state) channelId)
           in case spreadAppend channelMessages newMessage of
                Inl e \<Rightarrow> Inl e
              | Inr appended \<Rightarrow>
                  Inr (state\<lparr> messages := (messages state)(channelId \<mapsto> appended),
                             error := None \<rparr>))"

text \<open>Concrete inputs used by the examples below.\<close>

definition env0 :: Env where
  "env0 = \<lparr> env_dateNow = js ''1700000000000'', env_random36 = js ''0.4fzyo82mvyr'',
            env_newDate = Instant 1700000000000 \<rparr>"

definition paddedContent :: jsstring where
  "paddedContent = replicate 2000 0x61 @ [0x20]"

definition helloData :: "jsstring \<Rightarrow> CreateMessage" where
  "helloData c = \<lparr> create_channelId = js ''general'', create_userId = js ''u2'',
     create_content = c, create_type = TextMessage, create_editedAt = None \<rparr>"

section \<open>Browser storage with exceptions\<close>

text \<open>
  \<open>localStorage\<close> is a key-value store each of whose methods may throw (storage disabled,
  quota exceeded). The store records which calls throw. A computation over it returns a
  value or a thrown exception, together with the store it leaves behind; \<open>tryCatch\<close> is the
  \<open>try { ... } catch (error) { ... }\<close> statement. The \<open>console.warn\<close> calls of the catch
  blocks are not modelled.
\<close>

record localStorage =
  items :: "jsstring \<rightharpoonup> jsstring"
  getItemThrows :: "jsstring \<Rightarrow> exn option"
  setItemThrows :: "jsstring \<Rightarrow> jsstring \<Rightarrow> exn option"
  removeItemThrows :: "jsstring \<Rightarrow> exn option"

type_synonym 'a io = "localStorage \<Rightarrow> (exn + 'a) \<times> localStorage"

definition returnIO :: "'a \<Rightarrow> 'a io" where
  "returnIO v ls = (Inr v, ls)"

definition throwIO :: "exn \<Rightarrow> 'a io" where
  "throwIO e ls = (Inl e, ls)"

definition bindIO :: "'a io \<Rightarrow> ('a \<Rightarrow> 'b io) \<Rightarrow> 'b io" where
  "bindIO m f ls = (case m ls of (Inl e, ls') \<Rightarrow> (Inl e, ls') | (Inr v, ls') \<Rightarrow> f v ls')"

definition tryCatch :: "'a io \<Rightarrow> (exn \<Rightarrow> 'a io) \<Rightarrow> 'a io" where
  "tryCatch m handler ls =
     (case m ls of (Inl e, ls') \<Rightarrow> handler e ls' | (Inr v, ls') \<Rightarrow> (Inr v, ls'))"

definition getItem :: "jsstring \<Rightarrow> jsstring option io" where
  "getItem key ls =
     (case getItemThrows ls key of Some e \<Rightarrow> (Inl e, ls) | None \<Rightarrow> (Inr (items ls key), ls))"

definition setItem :: "jsstring \<Rightarrow> jsstring \<Rightarrow> unit io" where
  "setItem key v ls =
     (case setItemThrows ls key v of
        Some e \<Rightarrow> (Inl e, ls)
      | None \<Rightarrow> (Inr (), ls\<lparr> items := (items ls)(key \<mapsto> v) \<rparr>))"

definition removeItem :: "jsstring \<Rightarrow> unit io" where
  "removeItem key ls =
     (case removeItemThrows ls key of
        Some e \<Rightarrow> (Inl e, ls)
      | None \<Rightarrow> (Inr (), ls\<lparr> items := (items ls)(key := None) \<rparr>))"

section \<open>StorageManager (utils/storage.ts)\<close>

definition STORAGE_KEYS_THEME :: jsstring where
  "STORAGE_KEYS_THEME = js ''openboard-theme''"

definition STORAGE_KEYS_SETTINGS :: jsstring where
  "STORAGE_KEYS_SETTINGS = js ''openboard-settings''"

definition storageTestKey :: jsstring where
  "storageTestKey = js ''__storage_test__''"

definition themeString :: "Theme \<Rightarrow> jsstring" where
  "themeString t = (case t of Light \<Rightarrow> js ''light'' | Dark \<Rightarrow> js ''dark'' | System \<Rightarrow> js ''system'')"

definition isValidTheme :: "jsstring \<Rightarrow> bool" where
  "isValidTheme v \<longleftrightarrow> List.member [js ''light'', js ''dark'', js ''system''] v"

text \<open>The value \<open>stored\<close> returned at type \<open>Theme\<close> once \<open>isValidTheme\<close> has accepted it.\<close>

definition asTheme :: "jsstring \<Rightarrow> Theme" where
  "asTheme v = (if v = js ''light'' then Light else if v = js ''dark'' then Dark else System)"

text \<open>
  \<open>Partial<StorageData>\<close>: every field optional. \<open>JSON.parse\<close> and \<open>JSON.stringify\<close>
  belong to the JavaScript runtime and are parameters of the functions that call them;
  a parsed value is null, a primitive, or an object read at type \<open>Partial<StorageData>\<close>.
\<close>

record StorageData =
  settings_theme :: "Theme option"
  settings_sidebarOpen :: "bool option"
  settings_lastActiveChannel :: "jsstring option"

datatype json = JNull | JPrimitive | JObject StorageData

definition emptySettings :: StorageData where
  "emptySettings = \<lparr> settings_theme = None, settings_sidebarOpen = None,
                      settings_lastActiveChannel = None \<rparr>"

definition isStorageAvailable :: "bool io" where
  "isStorageAvailable =
     tryCatch
       (bindIO (setItem storageTestKey storageTestKey) (\<lambda>_.
        bindIO (removeItem storageTestKey) (\<lambda>_.
        returnIO True)))
       (\<lambda>_. returnIO False)"

definition getTheme :: "Theme io" where
  "getTheme =
     bindIO isStorageAvailable (\<lambda>available.
       if \<not> available then returnIO Light
       else
         bindIO
           (tryCatch
              (bindIO (getItem STORAGE_KEYS_THEME) (\<lambda>stored.
                 case stored of
                   None \<Rightarrow> returnIO None
                 | Some v \<Rightarrow> if v \<noteq> [] \<and> isValidTheme v then returnIO (Some (asTheme v))
                             else returnIO None))
              (\<lambda>error. returnIO None))
           (\<lambda>returned. case returned of Some t \<Rightarrow> returnIO t | None \<Rightarrow> returnIO Light))"

definition setTheme :: "Theme \<Rightarrow> unit io" where
  "setTheme t =
     bindIO isStorageAvailable (\<lambda>available.
       if \<not> available then returnIO ()
       else tryCatch (setItem STORAGE_KEYS_THEME (themeString t)) (\<lambda>error. returnIO ()))"

definition getSettings :: "(jsstring \<Rightarrow> exn + json) \<Rightarrow> StorageData io" where
  "getSettings parse =
     bindIO isStorageAvailable (\<lambda>available.
       if \<not> available then returnIO emptySettings
       else
         bindIO
           (tryCatch
              (bindIO (getItem STORAGE_KEYS_SETTINGS) (\<lambda>stored.
                 case stored of
                   None \<Rightarrow> returnIO None
                 | Some v \<Rightarrow>
                     if v = [] then returnIO None
                     else (case parse v of
                             Inl e \<Rightarrow> throwIO e
                           | Inr parsed \<Rightarrow>
                               returnIO (Some (case parsed of JObject obj \<Rightarrow> obj
                                                 | _ \<Rightarrow> emptySettings)))))
              (\<lambda>error. returnIO None))
           (\<lambda>returned. case returned of Some v \<Rightarrow> returnIO v | None \<Rightarrow> returnIO emptySettings))"

text \<open>The object spread \<open>{ ...current, ...settings }\<close>: a field of \<open>settings\<close> wins.\<close>

definition spread :: "StorageData \<Rightarrow> StorageData \<Rightarrow> StorageData" where
  "spread current settings =
     \<lparr> settings_theme =
         (case settings_theme settings of Some v \<Rightarrow> Some v | None \<Rightarrow> settings_theme current),
       settings_sidebarOpen =
         (case settings_sidebarOpen settings of Some v \<Rightarrow> Some v
          | None \<Rightarrow> settings_sidebarOpen current),
       settings_lastActiveChannel =
         (case settings_lastActiveChannel settings of Some v \<Rightarrow> Some v
          | None \<Rightarrow> settings_lastActiveChannel current) \<rparr>"

definition setSettings ::
  "(jsstring \<Rightarrow> exn + json) \<Rightarrow> (StorageData \<Rightarrow> jsstring) \<Rightarrow> StorageData \<Rightarrow> unit io" where
  "setSettings parse stringify settings =
     bindIO isStorageAvailable (\<lambda>available.
       if \<not> available then returnIO ()
       else
         tryCatch
           (bindIO (getSettings parse) (\<lambda>current.
              let updated = spread current settings
              in setItem STORAGE_KEYS_SETTINGS (stringify updated)))
           (\<lambda>error. returnIO ()))"

definition clearAll :: "unit io" where
  "clearAll =
     bindIO isStorageAvailable (\<lambda>available.
       if \<not> available then returnIO ()
       else
         tryCatch
           (bindIO (removeItem STORAGE_KEYS_THEME) (\<lambda>_. removeItem STORAGE_KEYS_SETTINGS))
           (\<lambda>error. returnIO ()))"

section \<open>The store: theme, loading and filtering (stores/useAppStore.ts)\<close>

text \<open>
  An updater passed to \<open>set\<close> computes the next state from the current one; those that call
  the StorageManager run over the storage.
\<close>

definition toggleTheme :: "AppState \<Rightarrow> AppState io" where
  "toggleTheme state =
     (let newTheme = (case theme state of Light \<Rightarrow> Dark | Dark \<Rightarrow> System | System \<Rightarrow> Light)
      in bindIO (setTheme newTheme) (\<lambda>_. returnIO (state\<lparr> theme := newTheme \<rparr>)))"

text \<open>JavaScript truthiness of an optional string: undefined, null and '' are falsy.\<close>

definition truthy :: "jsstring option \<Rightarrow> bool" where
  "truthy v = (case v of None \<Rightarrow> False | Some s \<Rightarrow> s \<noteq> [])"

text \<open>
  \<open>loadMockData\<close>; the module constants \<open>mockChannels\<close> and \<open>mockMessages\<close> are arguments.
  \<open>mockChannels[0]?.id\<close> is undefined on an empty array.
\<close>

definition loadMockData ::
  "(jsstring \<Rightarrow> exn + json) \<Rightarrow> Channel list \<Rightarrow> (jsstring \<rightharpoonup> Message list) \<Rightarrow> AppState
     \<Rightarrow> AppState io" where
  "loadMockData parse mockChannels mockMessages state =
     bindIO (getSettings parse) (\<lambda>settings.
       let firstId = (case mockChannels of [] \<Rightarrow> None | c # _ \<Rightarrow> Some (channel_id c));
           defaultActiveChannel =
             (if truthy (settings_lastActiveChannel settings)
              then settings_lastActiveChannel settings
              else if truthy firstId then firstId else None)
       in returnIO (state\<lparr> channels := mockChannels, messages := mockMessages,
                           activeChannelId := defaultActiveChannel, isLoading := False \<rparr>))"

text \<open>
  \<open>String.prototype.includes\<close> (here \<open>includesStr\<close>): some suffix of the string starts with the search string.
\<close>

fun includesStr :: "jsstring \<Rightarrow> jsstring \<Rightarrow> bool" where
  "includesStr [] q = (q = [])"
| "includesStr (c # s) q = (prefix q (c # s) \<or> includesStr s q)"

text \<open>
  \<open>getFilteredChannels\<close>; \<open>String.prototype.toLowerCase\<close> belongs to the runtime and is
  the parameter \<open>toLowerCase\<close>.
\<close>

definition getFilteredChannels :: "(jsstring \<Rightarrow> jsstring) \<Rightarrow> AppState \<Rightarrow> Channel list" where
  "getFilteredChannels toLowerCase state =
     (if trim (searchQuery state) = [] then channels state
      else
        let query = toLowerCase (searchQuery state)
        in filter (\<lambda>channel. includesStr (toLowerCase (channel_name channel)) query
                           \<or> includesStr (toLowerCase (channel_description channel)) query)
             (channels state))"

section \<open>Timestamps and grouping (utils/timestampUtils.ts)\<close>

text \<open>
  The functions imported from the date-fns library. What they compute on valid dates is a
  parameter: whether two instants fall on the same calendar date, whether an instant falls
  on the current day or on the day before, and the rendering of an instant by a pattern.
  On the invalid date, \<open>isSameDay\<close>, \<open>isToday\<close> and \<open>isYesterday\<close> return false (the
  comparison of NaN with a time value) and \<open>format\<close> throws a RangeError.
\<close>

record DateFns =
  onSameDay :: "int \<Rightarrow> int \<Rightarrow> bool"
  onToday :: "int \<Rightarrow> bool"
  onYesterday :: "int \<Rightarrow> bool"
  rendering :: "int \<Rightarrow> jsstring \<Rightarrow> jsstring"

definition isSameDay :: "DateFns \<Rightarrow> Date \<Rightarrow> Date \<Rightarrow> bool" where
  "isSameDay lib a b =
     (case a of
        InvalidDate \<Rightarrow> False
      | Instant x \<Rightarrow> (case b of InvalidDate \<Rightarrow> False | Instant y \<Rightarrow> onSameDay lib x y))"

definition isToday :: "DateFns \<Rightarrow> Date \<Rightarrow> bool" where
  "isToday lib d = (case d of InvalidDate \<Rightarrow> False | Instant x \<Rightarrow> onToday lib x)"

definition isYesterday :: "DateFns \<Rightarrow> Date \<Rightarrow> bool" where
  "isYesterday lib d = (case d of InvalidDate \<Rightarrow> False | Instant x \<Rightarrow> onYesterday lib x)"

definition format :: "DateFns \<Rightarrow> Date \<Rightarrow> jsstring \<Rightarrow> exn + jsstring" where
  "format lib d pattern =
     (case d of InvalidDate \<Rightarrow> Inl RangeError | Instant x \<Rightarrow> Inr (rendering lib x pattern))"

record DateSeparator =
  separator_date :: Date
  separator_label :: jsstring

datatype MessageItem = MessageItem Message | SeparatorItem DateSeparator

text \<open>\<open>xs[i]\<close> on an array: undefined outside the range, as \<open>messages[i - 1]\<close> at i = 0.\<close>

definition arrayAt :: "'a list \<Rightarrow> int \<Rightarrow> 'a option" where
  "arrayAt xs i = (if 0 \<le> i \<and> i < int (length xs) then Some (xs ! nat i) else None)"

definition shouldShowDateSeparator :: "DateFns \<Rightarrow> Message \<Rightarrow> Message option \<Rightarrow> bool" where
  "shouldShowDateSeparator lib currentMessage previousMessage =
     (case previousMessage of
        None \<Rightarrow> True
      | Some p \<Rightarrow> \<not> isSameDay lib (message_timestamp currentMessage) (message_timestamp p))"

definition formatDateSeparator :: "DateFns \<Rightarrow> Date \<Rightarrow> exn + jsstring" where
  "formatDateSeparator lib date =
     (if isToday lib date then Inr (js ''Today'')
      else if isYesterday lib date then Inr (js ''Yesterday'')
      else format lib date (js ''EEEE, MMMM d, yyyy''))"

text \<open>
  The \<open>for\<close> loop of \<open>groupMessagesByDate\<close>, from index \<open>i\<close> with the items pushed so far.
  An exception thrown while a separator is built ends the loop and leaves the function.
\<close>

function groupLoop ::
  "DateFns \<Rightarrow> Message list \<Rightarrow> nat \<Rightarrow> MessageItem list \<Rightarrow> exn + MessageItem list" where
  "groupLoop lib msgs i result =
     (if i < length msgs then
        let currentMessage = msgs ! i;
            previousMessage = arrayAt msgs (int i - 1)
        in if shouldShowDateSeparator lib currentMessage previousMessage
           then (case formatDateSeparator lib (message_timestamp currentMessage) of
                   Inl e \<Rightarrow> Inl e
                 | Inr label \<Rightarrow>
                     groupLoop lib msgs (i + 1)
                       (result @ [SeparatorItem \<lparr> separator_date = message_timestamp currentMessage,
                                    separator_label = label \<rparr>]
                          @ [MessageItem currentMessage]))
           else groupLoop lib msgs (i + 1) (result @ [MessageItem currentMessage])
      else Inr result)"
  by pat_completeness auto
termination
  by (relation "measure (\<lambda>(lib, msgs, i, result). length msgs - i)") auto

declare groupLoop.simps [simp del]

definition groupMessagesByDate :: "DateFns \<Rightarrow> Message list \<Rightarrow> exn + MessageItem list" where
  "groupMessagesByDate lib msgs = (if length msgs = 0 then Inr [] else groupLoop lib msgs 0 [])"

section \<open>Search highlighting (utils/searchUtils.ts)\<close>

text \<open>
  The character class of \<open>escapeRegExp\<close>, in the order of the source: dot, star, plus,
  question mark, caret, dollar, both braces, both parentheses, bar, both brackets, backslash.
  The replacement puts a backslash (0x5C) before each of them.
\<close>

definition escapedCharacters :: "jschar list" where
  "escapedCharacters =
     [0x2E, 0x2A, 0x2B, 0x3F, 0x5E, 0x24, 0x7B, 0x7D, 0x28, 0x29, 0x7C, 0x5B, 0x5D, 0x5C]"

definition escapeRegExp :: "jsstring \<Rightarrow> jsstring" where
  "escapeRegExp str = concat (map (\<lambda>c. if List.member escapedCharacters c then [0x5C, c] else [c]) str)"

text \<open>
  The RegExp constructor belongs to the runtime. The ECMAScript syntax characters are caret,
  dollar, backslash, dot, star, plus, question mark, the parentheses, the brackets, the
  braces and the bar. The model covers the patterns that are one capture
  group around a sequence of atoms, each a pattern character (any code unit that is not a
  syntax character) or a backslash followed by a syntax character: \<open>newRegExp\<close> returns
  the code units such a pattern matches in order, and \<open>None\<close> on any other pattern.
\<close>

definition syntaxCharacters :: "jschar list" where
  "syntaxCharacters =
     [0x5E, 0x24, 0x5C, 0x2E, 0x2A, 0x2B, 0x3F, 0x28, 0x29, 0x5B, 0x5D, 0x7B, 0x7D, 0x7C]"

fun parseLiteralAtoms :: "jsstring \<Rightarrow> jsstring option" where
  "parseLiteralAtoms [] = Some []"
| "parseLiteralAtoms [c] = (if List.member syntaxCharacters c then None else Some [c])"
| "parseLiteralAtoms (c # d # s) =
     (if c = 0x5C then
        (if List.member syntaxCharacters d then map_option ((#) d) (parseLiteralAtoms s) else None)
      else if List.member syntaxCharacters c then None
      else map_option ((#) c) (parseLiteralAtoms (d # s)))"

definition newRegExp :: "jsstring \<Rightarrow> jsstring option" where
  "newRegExp pattern =
     (case pattern of
        [] \<Rightarrow> None
      | c # rest \<Rightarrow> if c = 0x28 \<and> rest \<noteq> [] \<and> last rest = 0x29
                    then parseLiteralAtoms (butlast rest) else None)"

text \<open>
  Matching with the flag \<open>i\<close>: two code units match when the runtime's \<open>Canonicalize\<close>, the
  parameter \<open>canon\<close>, maps them to the same code unit.
\<close>

definition ciMatchAt :: "(jschar \<Rightarrow> jschar) \<Rightarrow> jsstring \<Rightarrow> jsstring \<Rightarrow> bool" where
  "ciMatchAt canon lits s \<longleftrightarrow>
     length lits \<le> length s \<and> map canon (take (length lits) s) = map canon lits"

text \<open>
  \<open>text.replace(regex, before + '$1' + after)\<close> with the flag \<open>g\<close>, for a regex that matches
  the literal code units \<open>lits\<close> in its group 1: the leftmost match from the current
  position is replaced and the scan goes on behind it. The empty literal matches at every
  position.
\<close>

function replaceGlobal ::
  "(jschar \<Rightarrow> jschar) \<Rightarrow> jsstring \<Rightarrow> jsstring \<Rightarrow> jsstring \<Rightarrow> jsstring \<Rightarrow> jsstring" where
  "replaceGlobal canon lits before after s =
     (if lits = [] then concat (map (\<lambda>c. before @ after @ [c]) s) @ before @ after
      else if s = [] then []
      else if ciMatchAt canon lits s
        then before @ take (length lits) s @ after
               @ replaceGlobal canon lits before after (drop (length lits) s)
        else hd s # replaceGlobal canon lits before after (tl s))"
  by pat_completeness auto
termination
  by (relation "measure (\<lambda>(canon, lits, before, after, s). length s)") auto

declare replaceGlobal.simps [simp del]

definition markOpen :: jsstring where
  "markOpen = js ''<mark class='' @ [0x22] @ js ''bg-yellow-200 dark:bg-yellow-800'' @ [0x22]
                @ js ''>''"

definition markClose :: jsstring where
  "markClose = js ''</mark>''"

definition highlightSearchTerm ::
  "(jschar \<Rightarrow> jschar) \<Rightarrow> jsstring \<Rightarrow> jsstring \<Rightarrow> jsstring option" where
  "highlightSearchTerm canon text searchTerm =
     (if trim searchTerm = [] \<or> text = [] then Some text
      else
        let escapedTerm = escapeRegExp (trim searchTerm)
        in case newRegExp (js ''('' @ escapedTerm @ js '')'') of
             None \<Rightarrow> None
           | Some regex \<Rightarrow> Some (replaceGlobal canon regex markOpen markClose text))"

section \<open>Error classification (utils/errorHandling.ts)\<close>

record Error =
  error_name :: jsstring
  error_message :: jsstring

text \<open>\<open>pattern.test(s)\<close> for a case-insensitive literal pattern: a match at some position.\<close>

fun regexTest :: "(jschar \<Rightarrow> jschar) \<Rightarrow> jsstring \<Rightarrow> jsstring \<Rightarrow> bool" where
  "regexTest canon lits [] = ciMatchAt canon lits []"
| "regexTest canon lits (c # s) = (ciMatchAt canon lits (c # s) \<or> regexTest canon lits s)"

definition networkErrorPatterns :: "jsstring list" where
  "networkErrorPatterns =
     [js ''network'', js ''fetch'', js ''timeout'', js ''connection'', js ''offline'']"

definition validationErrorPatterns :: "jsstring list" where
  "validationErrorPatterns = [js ''validation'', js ''invalid'', js ''required'', js ''format'']"

definition retryablePatterns :: "jsstring list" where
  "retryablePatterns =
     [js ''temporary'', js ''rate limit'', js ''service unavailable'', js ''internal server error'']"

definition isNetworkError :: "(jschar \<Rightarrow> jschar) \<Rightarrow> Error \<Rightarrow> bool" where
  "isNetworkError canon err =
     (let isNetworkErrorName =
            (error_name err = js ''NetworkError'' \<or> error_name err = js ''TypeError'');
          hasNetworkMessage =
            list_ex (\<lambda>pattern. regexTest canon pattern (error_message err)) networkErrorPatterns
      in isNetworkErrorName \<or> hasNetworkMessage)"

definition isValidationError :: "(jschar \<Rightarrow> jschar) \<Rightarrow> Error \<Rightarrow> bool" where
  "isValidationError canon err =
     (let isValidationErrorName = (error_name err = js ''ValidationError'');
          hasValidationMessage =
            list_ex (\<lambda>pattern. regexTest canon pattern (error_message err)) validationErrorPatterns
      in isValidationErrorName \<or> hasValidationMessage)"

definition isRetryableError :: "(jschar \<Rightarrow> jschar) \<Rightarrow> Error \<Rightarrow> bool" where
  "isRetryableError canon err =
     (if isValidationError canon err then False
      else if isNetworkError canon err then True
      else list_ex (\<lambda>pattern. regexTest canon pattern (error_message err)) retryablePatterns)"

section \<open>Example inputs\<close>

text \<open>Stores: one that works, one whose every method throws, one that is full.\<close>

definition workingStorage :: localStorage where
  "workingStorage = \<lparr> items = Map.empty, getItemThrows = (\<lambda>key. None),
     setItemThrows = (\<lambda>key v. None), removeItemThrows = (\<lambda>key. None) \<rparr>"

definition throwingStorage :: localStorage where
  "throwingStorage = \<lparr> items = Map.empty, getItemThrows = (\<lambda>key. Some SecurityError),
     setItemThrows = (\<lambda>key v. Some SecurityError),
     removeItemThrows = (\<lambda>key. Some SecurityError) \<rparr>"

definition fullStorage :: localStorage where
  "fullStorage = \<lparr> items = Map.empty, getItemThrows = (\<lambda>key. None),
     setItemThrows = (\<lambda>key v. if key = storageTestKey then None else Some QuotaExceededError),
     removeItemThrows = (\<lambda>key. None) \<rparr>"

text \<open>
  A store that holds the settings of an earlier session, whose last active channel
  \<open>archived\<close> is not among the channels loaded now, and a parser that reads them.
\<close>

definition jsonArchived :: jsstring where
  "jsonArchived = js ''{'' @ [0x22] @ js ''lastActiveChannel'' @ [0x22] @ js '':'' @ [0x22]
                    @ js ''archived'' @ [0x22] @ js ''}''"

definition archivedSettings :: StorageData where
  "archivedSettings = \<lparr> settings_theme = None, settings_sidebarOpen = None,
                         settings_lastActiveChannel = Some (js ''archived'') \<rparr>"

definition parseArchived :: "jsstring \<Rightarrow> exn + json" where
  "parseArchived v = (if v = jsonArchived then Inr (JObject archivedSettings) else Inl SyntaxError)"

definition archivedStorage :: localStorage where
  "archivedStorage = \<lparr> items = [STORAGE_KEYS_SETTINGS \<mapsto> jsonArchived],
     getItemThrows = (\<lambda>key. None), setItemThrows = (\<lambda>key v. None),
     removeItemThrows = (\<lambda>key. None) \<rparr>"

definition generalChannel :: Channel where
  "generalChannel = \<lparr> channel_id = js ''general'', channel_name = js ''General'',
     channel_description = js ''General discussion and announcements'', channel_type = Public,
     channel_createdAt = Instant 1704103200000, channel_memberCount = 6 \<rparr>"

definition techChannel :: Channel where
  "techChannel = \<lparr> channel_id = js ''tech'', channel_name = js ''Tech Talk'',
     channel_description = js ''Technical discussions, programming, and development'',
     channel_type = Public, channel_createdAt = Instant 1704189600000, channel_memberCount = 4 \<rparr>"

definition twoChannels :: "Channel list" where
  "twoChannels = [generalChannel, techChannel]"

text \<open>Lower-casing and canonicalisation restricted to the ASCII letters.\<close>

definition toLowerASCII :: "jsstring \<Rightarrow> jsstring" where
  "toLowerASCII s = map (\<lambda>c. if 0x41 \<le> c \<and> c \<le> 0x5A then c + 0x20 else c) s"

definition canonASCII :: "jschar \<Rightarrow> jschar" where
  "canonASCII c = (if 0x61 \<le> c \<and> c \<le> 0x7A then c - 0x20 else c)"

text \<open>
  Dates by whole days of 86400000 ms, with the current instant \<open>now\<close>; the rendering of a
  date is left as the pattern.
\<close>

definition dayLib :: "int \<Rightarrow> DateFns" where
  "dayLib now = \<lparr> onSameDay = (\<lambda>a b. a div 86400000 = b div 86400000),
     onToday = (\<lambda>d. d div 86400000 = now div 86400000),
     onYesterday = (\<lambda>d. d div 86400000 = now div 86400000 - 1),
     rendering = (\<lambda>d pattern. pattern) \<rparr>"

definition messageAt :: "jsstring \<Rightarrow> Date \<Rightarrow> Message" where
  "messageAt ident t = \<lparr> message_id = ident, message_channelId = js ''general'',
     message_userId = js ''u1'', message_content = js ''hi'', message_timestamp = t,
     message_type = TextMessage, message_editedAt = None \<rparr>"

definition searchState :: "jsstring \<Rightarrow> AppState" where
  "searchState q = initialState\<lparr> channels := twoChannels, searchQuery := q \<rparr>"

definition typeError :: Error where
  "typeError = \<lparr> error_name = js ''TypeError'', error_message = js ''x is undefined'' \<rparr>"

section \<open>Lemmas on strings\<close>

lemma trim_Nil: "trim [] = []"
  by (simp add: trim_def)

lemma dropWhile_rev_stable:
  "xs = [] \<or> \<not> P (hd xs) \<Longrightarrow>
   dropWhile P (rev (dropWhile P (rev xs))) = rev (dropWhile P (rev xs))"
  by (cases xs) (auto simp: dropWhile_append)

lemma dropWhile_rev_dropWhile:
  "dropWhile P (rev (dropWhile P (rev (dropWhile P s)))) = rev (dropWhile P (rev (dropWhile P s)))"
proof (rule dropWhile_rev_stable)
  show "dropWhile P s = [] \<or> \<not> P (hd (dropWhile P s))"
    using hd_dropWhile [of P s] by blast
qed

lemma trim_trim: "trim (trim s) = trim s"
  by (simp add: trim_def dropWhile_rev_dropWhile dropWhile_idem)

lemma trim_paddedContent: "trim paddedContent = replicate 2000 0x61"
  by (simp add: trim_def paddedContent_def isWhiteSpace_def)

section \<open>Claims about addMessage\<close>

lemma general_not_inherited:
  "getChannelMessages initialState (js ''general'') = MessagesArray []"
  by (simp add: getChannelMessages_def propertyGet_def orEmptyArray_def initialState_def
      objectPrototypeKeys_def js_def)

lemma addMessage_rejected:
  "\<not> validateMessageContent (create_content messageData) \<Longrightarrow>
   addMessage env channelId messageData state
     = Inr (state\<lparr> error := Some (js ''Message content is invalid'') \<rparr>)"
  by (simp add: addMessage_def)

lemma addMessage_accepted:
  "validateMessageContent (create_content messageData) \<Longrightarrow>
   getChannelMessages state channelId = MessagesArray ms \<Longrightarrow>
   addMessage env channelId messageData state
     = Inr (state\<lparr> messages := (messages state)(channelId \<mapsto> ms @
               [\<lparr> message_id = generateId env, message_channelId = channelId,
                  message_userId = create_userId messageData,
                  message_content = trim (create_content messageData),
                  message_timestamp = env_newDate env, message_type = create_type messageData,
                  message_editedAt = None \<rparr>]),
             error := None \<rparr>)"
  by (simp add: addMessage_def getChannelMessages_def spreadAppend_def Let_def)

lemma addMessage_inherited_key:
  "validateMessageContent (create_content messageData) \<Longrightarrow>
   getChannelMessages state channelId = PrototypeMember \<Longrightarrow>
   addMessage env channelId messageData state = Inl TypeError"
  by (simp add: addMessage_def getChannelMessages_def spreadAppend_def Let_def)

lemma getChannelMessages_own:
  "getChannelMessages (state\<lparr> messages := (messages state)(channelId \<mapsto> ms), error := e \<rparr>) channelId
     = MessagesArray ms"
  by (simp add: getChannelMessages_def propertyGet_def orEmptyArray_def)

lemma getChannelMessages_error_update:
  "getChannelMessages (state\<lparr> error := e \<rparr>) channelId = getChannelMessages state channelId"
  by (simp add: getChannelMessages_def)

text \<open>
  C1 (as stated): \<open>addMessage\<close> accepts a content string exactly when its trimmed length
  is positive and at most 2000. This fails: the upper bound is checked on the untrimmed
  string. A content of 2000 letters followed by one space has trimmed length 2000, yet it
  is rejected: the message list keeps its value and the error is set.
\<close>

theorem C1_counterexample:
  "0 < length (trim paddedContent) \<and> length (trim paddedContent) \<le> 2000 \<and>
   \<not> validateMessageContent paddedContent \<and>
   getChannelMessages initialState (js ''general'') = MessagesArray [] \<and>
   addMessage env0 (js ''general'') (helloData paddedContent) initialState
     = Inr (initialState\<lparr> error := Some (js ''Message content is invalid'') \<rparr>) \<and>
   getChannelMessages (initialState\<lparr> error := Some (js ''Message content is invalid'') \<rparr>)
       (js ''general'')
     = getChannelMessages initialState (js ''general'')"
proof -
  have len: "length paddedContent = 2001"
    by (simp add: paddedContent_def)
  have bad: "\<not> validateMessageContent paddedContent"
    by (simp add: validateMessageContent_def len)
  then have "\<not> validateMessageContent (create_content (helloData paddedContent))"
    by (simp add: helloData_def)
  then have rej: "addMessage env0 (js ''general'') (helloData paddedContent) initialState
     = Inr (initialState\<lparr> error := Some (js ''Message content is invalid'') \<rparr>)"
    by (rule addMessage_rejected)
  show ?thesis
    using bad rej general_not_inherited
    by (simp add: trim_paddedContent getChannelMessages_error_update)
qed

text \<open>
  C1 (amended): for a channel identifier whose lookup in the messages object gives the
  channel's list or nothing (it does not name a member the object inherits from
  \<open>Object.prototype\<close>), \<open>addMessage\<close> accepts a content string c, that is, returns
  normally with one message appended to the channel's list, if and only if the trimmed
  length of c is positive and the untrimmed length of c is at most 2000.
\<close>

theorem C1_addMessage_accepts_iff:
  assumes "getChannelMessages state channelId = MessagesArray ms"
  shows "(\<exists>state' m. addMessage env channelId messageData state = Inr state'
            \<and> getChannelMessages state' channelId = MessagesArray (ms @ [m]))
         \<longleftrightarrow> 0 < length (trim (create_content messageData))
             \<and> length (create_content messageData) \<le> 2000"
proof (cases "validateMessageContent (create_content messageData)")
  case True
  then show ?thesis
    using addMessage_accepted [OF True assms, of env]
    by (auto simp add: getChannelMessages_own validateMessageContent_def)
next
  case False
  then show ?thesis
    using addMessage_rejected [OF False, of env channelId state] assms
    by (auto simp add: getChannelMessages_error_update validateMessageContent_def)
qed

theorem C1_witness:
  "getChannelMessages initialState (js ''general'') = MessagesArray []
   \<and> 0 < length (trim (js ''  hello  '')) \<and> length (js ''  hello  '') \<le> 2000
   \<and> (\<exists>state' m. addMessage env0 (js ''general'') (helloData (js ''  hello  '')) initialState
             = Inr state'
           \<and> getChannelMessages state' (js ''general'') = MessagesArray ([] @ [m]))"
proof -
  have c: "create_content (helloData (js ''  hello  '')) = js ''  hello  ''"
    by (simp add: helloData_def)
  have t: "0 < length (trim (js ''  hello  ''))"
    by (simp add: trim_def js_def isWhiteSpace_def)
  have l: "length (js ''  hello  '') \<le> 2000"
    by (simp add: js_def)
  from C1_addMessage_accepts_iff [OF general_not_inherited, of env0 "helloData (js ''  hello  '')"]
    c t l general_not_inherited
  show ?thesis by simp
qed

text \<open>
  C2: for every call of \<open>addMessage\<close>, a rejected content sets the error field and leaves
  the messages unchanged, and an accepted content appends exactly one message, with the
  trimmed content, to the end of the channel's list, creating the list if the channel has
  none, and sets the error to null. The code does not do so for every call. The channel
  identifier \<open>constructor\<close> passes \<open>validateChannelId\<close> and the initial messages object has
  no list under it, but the lookup finds the member inherited from \<open>Object.prototype\<close>,
  and with the valid content \<open>hello\<close> the array spread throws TypeError out of
  \<open>addMessage\<close>: no list is created, no message is appended, the error is not cleared.
\<close>

theorem C2_addMessage_inherited_key_throws:
  "validateChannelId (js ''constructor'')
   \<and> validateMessageContent (create_content (helloData (js ''hello'')))
   \<and> messages initialState (js ''constructor'') = None
   \<and> getChannelMessages initialState (js ''constructor'') = PrototypeMember
   \<and> addMessage env0 (js ''constructor'') (helloData (js ''hello'')) initialState = Inl TypeError"
proof -
  have v: "validateChannelId (js ''constructor'')"
    by (simp add: validateChannelId_def isChannelIdChar_def js_def)
  have c: "validateMessageContent (create_content (helloData (js ''hello'')))"
    by (simp add: validateMessageContent_def helloData_def trim_def js_def isWhiteSpace_def)
  have n: "messages initialState (js ''constructor'') = None"
    by (simp add: initialState_def)
  have g: "getChannelMessages initialState (js ''constructor'') = PrototypeMember"
    by (simp add: getChannelMessages_def propertyGet_def orEmptyArray_def initialState_def
        objectPrototypeKeys_def)
  from v c n g addMessage_inherited_key [OF c g, of env0] show ?thesis
    by simp
qed

text \<open>
  On a channel identifier whose lookup gives the channel's list or nothing, the call has
  the effect described: a rejected content sets the error and keeps the messages, an
  accepted content appends one message with the trimmed content (the list of an absent
  channel counts as empty), every other channel keeps its list, and the error is null.
\<close>

lemma addMessage_effect:
  assumes "getChannelMessages state channelId = MessagesArray ms"
  shows "(\<not> validateMessageContent (create_content messageData) \<longrightarrow>
      (\<exists>state'. addMessage env channelId messageData state = Inr state'
         \<and> error state' = Some (js ''Message content is invalid'')
         \<and> messages state' = messages state))
   \<and>
   (validateMessageContent (create_content messageData) \<longrightarrow>
      (\<exists>state' m. addMessage env channelId messageData state = Inr state'
         \<and> message_content m = trim (create_content messageData)
         \<and> message_channelId m = channelId
         \<and> message_userId m = create_userId messageData
         \<and> message_type m = create_type messageData
         \<and> message_id m = generateId env
         \<and> message_timestamp m = env_newDate env
         \<and> messages state' channelId = Some (ms @ [m])
         \<and> (\<forall>other. other \<noteq> channelId \<longrightarrow> messages state' other = messages state other)
         \<and> error state' = None))"
proof (cases "validateMessageContent (create_content messageData)")
  case True
  then show ?thesis
    using addMessage_accepted [OF True assms, of env] by simp
next
  case False
  then show ?thesis
    using addMessage_rejected [OF False, of env channelId state] by simp
qed

section \<open>The persistence adapter and the theme cycle\<close>

lemma isStorageAvailable_eq:
  "isStorageAvailable ls =
     (case setItemThrows ls storageTestKey storageTestKey of
        Some e \<Rightarrow> (Inr False, ls)
      | None \<Rightarrow>
          (case removeItemThrows ls storageTestKey of
             Some e \<Rightarrow> (Inr False, ls\<lparr> items := (items ls)(storageTestKey \<mapsto> storageTestKey) \<rparr>)
           | None \<Rightarrow> (Inr True, ls\<lparr> items := (items ls)(storageTestKey := None) \<rparr>)))"
  by (simp add: isStorageAvailable_def tryCatch_def bindIO_def setItem_def removeItem_def
      returnIO_def split: option.splits)

lemma isStorageAvailable_total: "\<exists>b ls'. isStorageAvailable ls = (Inr b, ls')"
  by (auto simp add: isStorageAvailable_eq split: option.splits)

lemma isStorageAvailable_flags:
  "isStorageAvailable ls = (r, ls') \<Longrightarrow>
     getItemThrows ls' = getItemThrows ls \<and> setItemThrows ls' = setItemThrows ls
     \<and> removeItemThrows ls' = removeItemThrows ls"
  by (auto simp add: isStorageAvailable_eq split: option.splits)

lemma setTheme_total: "\<exists>ls'. setTheme t ls = (Inr (), ls')"
proof -
  obtain b ls1 where a: "isStorageAvailable ls = (Inr b, ls1)"
    using isStorageAvailable_total by blast
  show ?thesis
    by (simp add: setTheme_def bindIO_def a tryCatch_def setItem_def returnIO_def
        split: option.splits)
qed

lemma getTheme_total: "\<exists>t ls'. getTheme ls = (Inr t, ls')"
proof -
  obtain b ls1 where a: "isStorageAvailable ls = (Inr b, ls1)"
    using isStorageAvailable_total by blast
  show ?thesis
    by (simp add: getTheme_def bindIO_def a tryCatch_def getItem_def returnIO_def
        split: option.splits)
qed

lemma getSettings_total: "\<exists>v ls'. getSettings parse ls = (Inr v, ls')"
proof -
  obtain b ls1 where a: "isStorageAvailable ls = (Inr b, ls1)"
    using isStorageAvailable_total by blast
  show ?thesis
    by (simp add: getSettings_def bindIO_def a tryCatch_def getItem_def returnIO_def throwIO_def
        split: option.splits sum.splits)
qed

lemma setSettings_total: "\<exists>ls'. setSettings parse stringify settings ls = (Inr (), ls')"
proof -
  obtain b ls1 where a: "isStorageAvailable ls = (Inr b, ls1)"
    using isStorageAvailable_total by blast
  obtain v ls2 where g: "getSettings parse ls1 = (Inr v, ls2)"
    using getSettings_total by blast
  show ?thesis
    by (simp add: setSettings_def bindIO_def a g tryCatch_def setItem_def returnIO_def Let_def
        split: option.splits)
qed

lemma clearAll_total: "\<exists>ls'. clearAll ls = (Inr (), ls')"
proof -
  obtain b ls1 where a: "isStorageAvailable ls = (Inr b, ls1)"
    using isStorageAvailable_total by blast
  show ?thesis
    by (simp add: clearAll_def bindIO_def a tryCatch_def removeItem_def returnIO_def
        split: option.splits)
qed

lemma isStorageAvailable_throwing:
  "setItemThrows ls storageTestKey storageTestKey \<noteq> None \<Longrightarrow> isStorageAvailable ls = (Inr False, ls)"
  by (auto simp add: isStorageAvailable_eq split: option.splits)

text \<open>
  C4: when every access to the underlying store throws, \<open>getTheme\<close> returns \<open>light\<close>,
  \<open>getSettings\<close> returns the empty object, and \<open>setTheme\<close>, \<open>setSettings\<close> and \<open>clearAll\<close>
  return normally: no exception escapes, and the store is left as it was.
\<close>

theorem C4_throwing_store_contained:
  assumes g: "\<forall>key. getItemThrows ls key \<noteq> None"
    and s: "\<forall>key v. setItemThrows ls key v \<noteq> None"
    and r: "\<forall>key. removeItemThrows ls key \<noteq> None"
  shows "getTheme ls = (Inr Light, ls) \<and> getSettings parse ls = (Inr emptySettings, ls)
    \<and> setTheme t ls = (Inr (), ls) \<and> setSettings parse stringify settings ls = (Inr (), ls)
    \<and> clearAll ls = (Inr (), ls)"
proof -
  have a: "isStorageAvailable ls = (Inr False, ls)"
    using s by (simp add: isStorageAvailable_throwing)
  show ?thesis
    by (simp add: getTheme_def getSettings_def setTheme_def setSettings_def clearAll_def
        bindIO_def a returnIO_def)
qed

theorem C4_witness:
  "(\<forall>key. getItemThrows throwingStorage key \<noteq> None)
   \<and> (\<forall>key v. setItemThrows throwingStorage key v \<noteq> None)
   \<and> (\<forall>key. removeItemThrows throwingStorage key \<noteq> None)
   \<and> getTheme throwingStorage = (Inr Light, throwingStorage)
   \<and> getSettings parseArchived throwingStorage = (Inr emptySettings, throwingStorage)
   \<and> setTheme Dark throwingStorage = (Inr (), throwingStorage)
   \<and> setSettings parseArchived (\<lambda>v. jsonArchived) archivedSettings throwingStorage
       = (Inr (), throwingStorage)
   \<and> clearAll throwingStorage = (Inr (), throwingStorage)"
proof -
  have g: "\<forall>key. getItemThrows throwingStorage key \<noteq> None"
    by (simp add: throwingStorage_def)
  have s: "\<forall>key v. setItemThrows throwingStorage key v \<noteq> None"
    by (simp add: throwingStorage_def)
  have r: "\<forall>key. removeItemThrows throwingStorage key \<noteq> None"
    by (simp add: throwingStorage_def)
  show ?thesis
    using g s r
      C4_throwing_store_contained [OF g s r, of parseArchived Dark "\<lambda>v. jsonArchived" archivedSettings]
    by blast
qed

lemma keys_distinct:
  "STORAGE_KEYS_THEME \<noteq> storageTestKey" "STORAGE_KEYS_SETTINGS \<noteq> storageTestKey"
  "STORAGE_KEYS_THEME \<noteq> STORAGE_KEYS_SETTINGS"
  by (simp_all add: STORAGE_KEYS_THEME_def STORAGE_KEYS_SETTINGS_def storageTestKey_def js_def)

lemma toggleTheme_eq:
  "toggleTheme state ls =
     (Inr (state\<lparr> theme := (case theme state of Light \<Rightarrow> Dark | Dark \<Rightarrow> System | System \<Rightarrow> Light) \<rparr>),
      snd (setTheme (case theme state of Light \<Rightarrow> Dark | Dark \<Rightarrow> System | System \<Rightarrow> Light) ls))"
proof -
  obtain ls' where a: "setTheme (case theme state of Light \<Rightarrow> Dark | Dark \<Rightarrow> System | System \<Rightarrow> Light) ls = (Inr (), ls')"
    using setTheme_total by blast
  show ?thesis
    by (simp add: toggleTheme_def Let_def bindIO_def a returnIO_def)
qed

lemma setTheme_persists:
  assumes "setItemThrows ls storageTestKey storageTestKey = None"
    and "removeItemThrows ls storageTestKey = None"
    and "setItemThrows ls STORAGE_KEYS_THEME (themeString t) = None"
  shows "items (snd (setTheme t ls)) STORAGE_KEYS_THEME = Some (themeString t)"
  using assms
  by (simp add: setTheme_def bindIO_def isStorageAvailable_eq tryCatch_def setItem_def)

lemma setTheme_write_fails:
  assumes "setItemThrows ls STORAGE_KEYS_THEME (themeString t) \<noteq> None"
  shows "items (snd (setTheme t ls)) STORAGE_KEYS_THEME = items ls STORAGE_KEYS_THEME"
proof -
  have ne: "STORAGE_KEYS_THEME \<noteq> storageTestKey"
    by (simp add: STORAGE_KEYS_THEME_def storageTestKey_def js_def)
  show ?thesis
    using assms ne
    by (auto simp add: setTheme_def bindIO_def isStorageAvailable_eq tryCatch_def setItem_def
        returnIO_def split: option.splits)
qed

text \<open>
  C8: \<open>toggleTheme\<close> returns normally on every store and moves the theme light to dark,
  dark to system, system to light; when the store accepts the availability probe and the
  write, the new value is stored under the theme key; when the write throws, the theme
  still changes and the key keeps its value; three toggles in a row give back the
  starting state.
\<close>

theorem C8_toggleTheme_cycle:
  "(\<exists>ls'. toggleTheme state ls =
       (Inr (state\<lparr> theme := (case theme state of Light \<Rightarrow> Dark | Dark \<Rightarrow> System | System \<Rightarrow> Light) \<rparr>), ls')
     \<and> (setItemThrows ls storageTestKey storageTestKey = None
          \<and> removeItemThrows ls storageTestKey = None
          \<and> setItemThrows ls STORAGE_KEYS_THEME
                (themeString (case theme state of Light \<Rightarrow> Dark | Dark \<Rightarrow> System | System \<Rightarrow> Light)) = None
        \<longrightarrow> items ls' STORAGE_KEYS_THEME
              = Some (themeString (case theme state of Light \<Rightarrow> Dark | Dark \<Rightarrow> System | System \<Rightarrow> Light)))
     \<and> (setItemThrows ls STORAGE_KEYS_THEME
                (themeString (case theme state of Light \<Rightarrow> Dark | Dark \<Rightarrow> System | System \<Rightarrow> Light)) \<noteq> None
        \<longrightarrow> items ls' STORAGE_KEYS_THEME = items ls STORAGE_KEYS_THEME))
   \<and> fst (bindIO (toggleTheme state) (\<lambda>s1. bindIO (toggleTheme s1) toggleTheme) ls) = Inr state"
proof -
  have cyc: "fst (bindIO (toggleTheme state) (\<lambda>s1. bindIO (toggleTheme s1) toggleTheme) ls) = Inr state"
    by (cases "theme state") (simp_all add: bindIO_def toggleTheme_eq)
  show ?thesis
    using cyc setTheme_persists setTheme_write_fails
    by (simp add: toggleTheme_eq)
qed

theorem C8_witness:
  "fst (toggleTheme initialState workingStorage) = Inr (initialState\<lparr> theme := Dark \<rparr>)
   \<and> items (snd (toggleTheme initialState workingStorage)) STORAGE_KEYS_THEME = Some (js ''dark'')
   \<and> setItemThrows fullStorage STORAGE_KEYS_THEME (js ''dark'') \<noteq> None
   \<and> fst (toggleTheme initialState fullStorage) = Inr (initialState\<lparr> theme := Dark \<rparr>)
   \<and> items (snd (toggleTheme initialState fullStorage)) STORAGE_KEYS_THEME = None
   \<and> fst (bindIO (toggleTheme initialState) (\<lambda>s1. bindIO (toggleTheme s1) toggleTheme)
            workingStorage) = Inr initialState"
proof -
  have t: "theme initialState = Light"
    by (simp add: initialState_def)
  have w: "setItemThrows workingStorage storageTestKey storageTestKey = None
           \<and> removeItemThrows workingStorage storageTestKey = None
           \<and> setItemThrows workingStorage STORAGE_KEYS_THEME (themeString Dark) = None"
    by (simp add: workingStorage_def)
  have f: "setItemThrows fullStorage STORAGE_KEYS_THEME (themeString Dark) \<noteq> None"
    by (simp add: fullStorage_def keys_distinct)
  have d: "themeString Dark = js ''dark''"
    by (simp add: themeString_def)
  have e: "items fullStorage STORAGE_KEYS_THEME = None"
    by (simp add: fullStorage_def)
  from C8_toggleTheme_cycle [of initialState workingStorage] t w d
  have a: "fst (toggleTheme initialState workingStorage) = Inr (initialState\<lparr> theme := Dark \<rparr>)
     \<and> items (snd (toggleTheme initialState workingStorage)) STORAGE_KEYS_THEME = Some (js ''dark'')
     \<and> fst (bindIO (toggleTheme initialState) (\<lambda>s1. bindIO (toggleTheme s1) toggleTheme)
            workingStorage) = Inr initialState"
    by auto
  from C8_toggleTheme_cycle [of initialState fullStorage] t f e
  have b: "fst (toggleTheme initialState fullStorage) = Inr (initialState\<lparr> theme := Dark \<rparr>)
     \<and> items (snd (toggleTheme initialState fullStorage)) STORAGE_KEYS_THEME = None"
    by auto
  from a b f d show ?thesis by simp
qed

section \<open>Loading\<close>

lemma getSettings_unavailable:
  "setItemThrows ls storageTestKey storageTestKey \<noteq> None \<Longrightarrow>
   getSettings parse ls = (Inr emptySettings, ls)"
  by (simp add: getSettings_def bindIO_def isStorageAvailable_throwing returnIO_def)

lemma getSettings_stored:
  assumes "setItemThrows ls storageTestKey storageTestKey = None"
    and "removeItemThrows ls storageTestKey = None"
    and "getItemThrows ls STORAGE_KEYS_SETTINGS = None"
    and "items ls STORAGE_KEYS_SETTINGS = Some v" and "v \<noteq> []"
    and "parse v = Inr (JObject obj)"
  shows "fst (getSettings parse ls) = Inr obj"
  using assms keys_distinct
  by (simp add: getSettings_def bindIO_def isStorageAvailable_eq tryCatch_def getItem_def
      returnIO_def)

lemma jsonArchived_nonempty: "jsonArchived \<noteq> []"
  by (simp add: jsonArchived_def js_def)

text \<open>
  C3 (as stated): on loading, the persisted last-active-channel identifier becomes the
  active channel only if it exists among the loaded channels, otherwise the first loaded
  channel does. This fails: \<open>loadMockData\<close> makes no membership check. With the stored
  identifier \<open>archived\<close> and the loaded channels \<open>general\<close> and \<open>tech\<close>, the active
  channel becomes \<open>archived\<close>, not \<open>general\<close>.
\<close>

theorem C3_counterexample:
  "items archivedStorage STORAGE_KEYS_SETTINGS = Some jsonArchived
   \<and> parseArchived jsonArchived = Inr (JObject archivedSettings)
   \<and> settings_lastActiveChannel archivedSettings = Some (js ''archived'')
   \<and> map channel_id twoChannels = [js ''general'', js ''tech'']
   \<and> \<not> List.member (map channel_id twoChannels) (js ''archived'')
   \<and> fst (loadMockData parseArchived twoChannels Map.empty initialState archivedStorage)
       = Inr (initialState\<lparr> channels := twoChannels, messages := Map.empty,
                activeChannelId := Some (js ''archived''), isLoading := False \<rparr>)"
proof -
  have ids: "map channel_id twoChannels = [js ''general'', js ''tech'']"
    by (simp add: twoChannels_def generalChannel_def techChannel_def)
  have nm: "\<not> List.member [js ''general'', js ''tech''] (js ''archived'')"
    by (simp add: js_def)
  have g: "fst (getSettings parseArchived archivedStorage) = Inr archivedSettings"
    by (rule getSettings_stored [of _ jsonArchived])
       (simp_all add: archivedStorage_def parseArchived_def jsonArchived_nonempty)
  have a: "js ''archived'' \<noteq> []"
    by (simp add: js_def)
  obtain ls' where g': "getSettings parseArchived archivedStorage = (Inr archivedSettings, ls')"
    using g by (cases "getSettings parseArchived archivedStorage") auto
  have "fst (loadMockData parseArchived twoChannels Map.empty initialState archivedStorage)
       = Inr (initialState\<lparr> channels := twoChannels, messages := Map.empty,
                activeChannelId := Some (js ''archived''), isLoading := False \<rparr>)"
    using a by (simp add: loadMockData_def bindIO_def g' returnIO_def truthy_def Let_def
        archivedSettings_def)
  then show ?thesis
    using ids nm by (simp add: archivedStorage_def parseArchived_def archivedSettings_def)
qed

text \<open>
  C3 (amended): \<open>loadMockData\<close> returns normally, replaces the channels and messages,
  clears the loading flag, and sets the active channel to the persisted
  last-active-channel identifier whenever that is a non-empty string, whether or not it
  is among the loaded channels; otherwise to the first loaded channel's identifier when
  there is one and it is non-empty; otherwise to null. The persisted settings are what
  \<open>getSettings\<close> returns: the empty object when the store is unavailable, the parsed
  stored object when the store works and holds one.
\<close>

theorem C3_loadMockData_active_channel:
  "\<exists>settings ls'.
     getSettings parse ls = (Inr settings, ls')
     \<and> loadMockData parse mockChannels mockMessages state ls =
         (Inr (state\<lparr> channels := mockChannels, messages := mockMessages,
                 activeChannelId :=
                   (case settings_lastActiveChannel settings of
                      Some persisted \<Rightarrow>
                        if persisted \<noteq> [] then Some persisted
                        else (case mockChannels of [] \<Rightarrow> None
                              | c # _ \<Rightarrow> if channel_id c \<noteq> [] then Some (channel_id c) else None)
                    | None \<Rightarrow>
                        (case mockChannels of [] \<Rightarrow> None
                         | c # _ \<Rightarrow> if channel_id c \<noteq> [] then Some (channel_id c) else None)),
                 isLoading := False \<rparr>), ls')
     \<and> (setItemThrows ls storageTestKey storageTestKey \<noteq> None \<longrightarrow> settings = emptySettings)
     \<and> (\<forall>v obj. setItemThrows ls storageTestKey storageTestKey = None
           \<and> removeItemThrows ls storageTestKey = None
           \<and> getItemThrows ls STORAGE_KEYS_SETTINGS = None
           \<and> items ls STORAGE_KEYS_SETTINGS = Some v \<and> v \<noteq> [] \<and> parse v = Inr (JObject obj)
           \<longrightarrow> settings = obj)"
proof -
  obtain settings ls' where g: "getSettings parse ls = (Inr settings, ls')"
    using getSettings_total by blast
  have l: "loadMockData parse mockChannels mockMessages state ls =
         (Inr (state\<lparr> channels := mockChannels, messages := mockMessages,
                 activeChannelId :=
                   (case settings_lastActiveChannel settings of
                      Some persisted \<Rightarrow>
                        if persisted \<noteq> [] then Some persisted
                        else (case mockChannels of [] \<Rightarrow> None
                              | c # _ \<Rightarrow> if channel_id c \<noteq> [] then Some (channel_id c) else None)
                    | None \<Rightarrow>
                        (case mockChannels of [] \<Rightarrow> None
                         | c # _ \<Rightarrow> if channel_id c \<noteq> [] then Some (channel_id c) else None)),
                 isLoading := False \<rparr>), ls')"
    by (simp add: loadMockData_def bindIO_def g returnIO_def truthy_def Let_def
        split: option.splits list.splits)
  have u: "setItemThrows ls storageTestKey storageTestKey \<noteq> None \<longrightarrow> settings = emptySettings"
    using g getSettings_unavailable [of ls parse] by auto
  have s: "\<forall>v obj. setItemThrows ls storageTestKey storageTestKey = None
           \<and> removeItemThrows ls storageTestKey = None
           \<and> getItemThrows ls STORAGE_KEYS_SETTINGS = None
           \<and> items ls STORAGE_KEYS_SETTINGS = Some v \<and> v \<noteq> [] \<and> parse v = Inr (JObject obj)
           \<longrightarrow> settings = obj"
    using g getSettings_stored [where ls = ls and parse = parse] by fastforce
  from g l u s show ?thesis by blast
qed

theorem C3_witness:
  "setItemThrows throwingStorage storageTestKey storageTestKey \<noteq> None
   \<and> fst (loadMockData parseArchived twoChannels Map.empty initialState throwingStorage)
       = Inr (initialState\<lparr> channels := twoChannels, messages := Map.empty,
                activeChannelId := Some (js ''general''), isLoading := False \<rparr>)
   \<and> fst (loadMockData parseArchived [] Map.empty initialState throwingStorage)
       = Inr (initialState\<lparr> channels := [], messages := Map.empty,
                activeChannelId := None, isLoading := False \<rparr>)
   \<and> items archivedStorage STORAGE_KEYS_SETTINGS = Some jsonArchived
   \<and> parseArchived jsonArchived = Inr (JObject archivedSettings)
   \<and> fst (loadMockData parseArchived twoChannels Map.empty initialState archivedStorage)
       = Inr (initialState\<lparr> channels := twoChannels, messages := Map.empty,
                activeChannelId := Some (js ''archived''), isLoading := False \<rparr>)"
proof -
  have t: "setItemThrows throwingStorage storageTestKey storageTestKey \<noteq> None"
    by (simp add: throwingStorage_def)
  have n: "js ''general'' \<noteq> []"
    by (simp add: js_def)
  from C3_loadMockData_active_channel [of parseArchived throwingStorage twoChannels Map.empty initialState] t n
  have a: "fst (loadMockData parseArchived twoChannels Map.empty initialState throwingStorage)
       = Inr (initialState\<lparr> channels := twoChannels, messages := Map.empty,
                activeChannelId := Some (js ''general''), isLoading := False \<rparr>)"
    by (auto simp add: emptySettings_def twoChannels_def generalChannel_def)
  from C3_loadMockData_active_channel [of parseArchived throwingStorage "[]" Map.empty initialState] t
  have b: "fst (loadMockData parseArchived [] Map.empty initialState throwingStorage)
       = Inr (initialState\<lparr> channels := [], messages := Map.empty,
                activeChannelId := None, isLoading := False \<rparr>)"
    by (auto simp add: emptySettings_def)
  have i: "items archivedStorage STORAGE_KEYS_SETTINGS = Some jsonArchived"
    by (simp add: archivedStorage_def)
  have p: "parseArchived jsonArchived = Inr (JObject archivedSettings)"
    by (simp add: parseArchived_def)
  have w: "setItemThrows archivedStorage storageTestKey storageTestKey = None
           \<and> removeItemThrows archivedStorage storageTestKey = None
           \<and> getItemThrows archivedStorage STORAGE_KEYS_SETTINGS = None"
    by (simp add: archivedStorage_def)
  have m: "js ''archived'' \<noteq> []"
    by (simp add: js_def)
  from C3_loadMockData_active_channel [of parseArchived archivedStorage twoChannels Map.empty initialState]
  obtain settings ls' where
    l: "loadMockData parseArchived twoChannels Map.empty initialState archivedStorage =
         (Inr (initialState\<lparr> channels := twoChannels, messages := Map.empty,
                 activeChannelId :=
                   (case settings_lastActiveChannel settings of
                      Some persisted \<Rightarrow>
                        if persisted \<noteq> [] then Some persisted
                        else (case twoChannels of [] \<Rightarrow> None
                              | c # _ \<Rightarrow> if channel_id c \<noteq> [] then Some (channel_id c) else None)
                    | None \<Rightarrow>
                        (case twoChannels of [] \<Rightarrow> None
                         | c # _ \<Rightarrow> if channel_id c \<noteq> [] then Some (channel_id c) else None)),
                 isLoading := False \<rparr>), ls')"
    and e: "\<forall>v obj. setItemThrows archivedStorage storageTestKey storageTestKey = None
           \<and> removeItemThrows archivedStorage storageTestKey = None
           \<and> getItemThrows archivedStorage STORAGE_KEYS_SETTINGS = None
           \<and> items archivedStorage STORAGE_KEYS_SETTINGS = Some v \<and> v \<noteq> []
           \<and> parseArchived v = Inr (JObject obj)
           \<longrightarrow> settings = obj"
    by blast
  from e w i p jsonArchived_nonempty have "settings = archivedSettings"
    by blast
  with l m have c: "fst (loadMockData parseArchived twoChannels Map.empty initialState archivedStorage)
       = Inr (initialState\<lparr> channels := twoChannels, messages := Map.empty,
                activeChannelId := Some (js ''archived''), isLoading := False \<rparr>)"
    by (simp add: archivedSettings_def)
  from t a b i p c show ?thesis by simp
qed

section \<open>Grouping messages by date\<close>

lemma arrayAt_pred:
  "i < length xs \<Longrightarrow> arrayAt xs (int i - 1) = (if i = 0 then None else Some (xs ! (i - 1)))"
  by (auto simp add: arrayAt_def nat_diff_distrib')

lemma formatDateSeparator_valid:
  "formatDateSeparator lib (Instant x) =
     Inr (if onToday lib x then js ''Today''
          else if onYesterday lib x then js ''Yesterday''
          else rendering lib x (js ''EEEE, MMMM d, yyyy''))"
  by (simp add: formatDateSeparator_def isToday_def isYesterday_def format_def)

lemma formatDateSeparator_invalid: "formatDateSeparator lib InvalidDate = Inl RangeError"
  by (simp add: formatDateSeparator_def isToday_def isYesterday_def format_def)

lemma formatDateSeparator_projr:
  "d \<noteq> InvalidDate \<Longrightarrow> formatDateSeparator lib d = Inr (projr (formatDateSeparator lib d))"
  by (cases d) (simp_all add: formatDateSeparator_valid)

lemma groupMessagesByDate_first_invalid:
  "message_timestamp m = InvalidDate \<Longrightarrow> groupMessagesByDate lib (m # msgs) = Inl RangeError"
  by (simp add: groupMessagesByDate_def)
     (subst groupLoop.simps,
      simp add: Let_def arrayAt_def shouldShowDateSeparator_def formatDateSeparator_invalid)

text \<open>
  C5: \<open>groupMessagesByDate\<close> maps a one-message list to the separator followed by the
  message, and in general puts a separator before the first message and before each
  message whose calendar date differs from its predecessor's. The code does not do so for
  every message list: a message whose timestamp is the invalid date gets no label, since
  \<open>format\<close> throws a RangeError out of \<open>formatDateSeparator\<close> and \<open>groupMessagesByDate\<close>,
  while \<open>formatMessageTimestamp\<close> in the same file returns \<open>Invalid date\<close> for it.
\<close>

theorem C5_groupMessagesByDate_invalid_date_throws:
  "message_timestamp (messageAt (js ''m0'') InvalidDate) = InvalidDate
   \<and> groupMessagesByDate (dayLib 172800100) [messageAt (js ''m0'') InvalidDate] = Inl RangeError"
proof -
  have t: "message_timestamp (messageAt (js ''m0'') InvalidDate) = InvalidDate"
    by (simp add: messageAt_def)
  from t groupMessagesByDate_first_invalid [OF t, of "dayLib 172800100" "[]"] show ?thesis
    by simp
qed

text \<open>
  On messages whose timestamps are all valid dates the grouping is as described: the
  empty list gives the empty list, and the result is, message by message in input order,
  the message preceded by a separator exactly when it is the first message or \<open>isSameDay\<close>
  with the message just before it is false; the separator carries the message's timestamp
  and the label \<open>Today\<close>, else \<open>Yesterday\<close>, else the formatted date.
\<close>

lemma groupLoop_closed:
  "i \<le> length msgs \<Longrightarrow> \<forall>m\<in>set msgs. message_timestamp m \<noteq> InvalidDate \<Longrightarrow>
   groupLoop lib msgs i result =
     Inr (result @ concat (map (\<lambda>j.
        (if j = 0 \<or> \<not> isSameDay lib (message_timestamp (msgs ! j)) (message_timestamp (msgs ! (j - 1)))
         then [SeparatorItem \<lparr> separator_date = message_timestamp (msgs ! j),
                 separator_label = projr (formatDateSeparator lib (message_timestamp (msgs ! j))) \<rparr>]
         else []) @ [MessageItem (msgs ! j)]) [i..<length msgs]))"
proof (induction lib msgs i result rule: groupLoop.induct)
  case (1 lib msgs i result)
  show ?case
  proof (cases "i < length msgs")
    case True
    then have up: "[i..<length msgs] = i # [Suc i..<length msgs]"
      by (simp add: upt_conv_Cons)
    from True have le: "i + 1 \<le> length msgs" by simp
    from True "1.prems"(2) have valid: "message_timestamp (msgs ! i) \<noteq> InvalidDate"
      by simp
    from formatDateSeparator_projr [OF valid, of lib]
    obtain label where lab: "formatDateSeparator lib (message_timestamp (msgs ! i)) = Inr label"
      by blast
    then have pr: "projr (formatDateSeparator lib (message_timestamp (msgs ! i))) = label"
      by simp
    show ?thesis
    proof (cases "shouldShowDateSeparator lib (msgs ! i) (arrayAt msgs (int i - 1))")
      case sep: True
      have step: "groupLoop lib msgs i result =
          groupLoop lib msgs (i + 1)
            (result @ [SeparatorItem \<lparr> separator_date = message_timestamp (msgs ! i),
                separator_label = label \<rparr>]
               @ [MessageItem (msgs ! i)])"
        using True sep by (subst groupLoop.simps) (simp add: Let_def lab)
      from sep True have cond: "i = 0 \<or> \<not> isSameDay lib (message_timestamp (msgs ! i))
                                          (message_timestamp (msgs ! (i - 1)))"
        by (auto simp add: shouldShowDateSeparator_def arrayAt_pred split: if_splits)
      show ?thesis
        using "1.IH"(1) [OF True refl refl sep lab le "1.prems"(2)] cond
        by (simp add: step up pr)
    next
      case nosep: False
      have step: "groupLoop lib msgs i result =
          groupLoop lib msgs (i + 1) (result @ [MessageItem (msgs ! i)])"
        using True nosep by (subst groupLoop.simps) (simp add: Let_def)
      from nosep True have cond: "\<not> (i = 0 \<or> \<not> isSameDay lib (message_timestamp (msgs ! i))
                                          (message_timestamp (msgs ! (i - 1))))"
        by (auto simp add: shouldShowDateSeparator_def arrayAt_pred split: if_splits)
      show ?thesis
        using "1.IH"(2) [OF True refl refl nosep le "1.prems"(2)] cond
        by (simp add: step up)
    qed
  next
    case False
    with "1.prems" have "i = length msgs" by simp
    then show ?thesis
      by (subst groupLoop.simps) simp
  qed
qed

lemma groupMessagesByDate_valid_dates:
  assumes "\<forall>m\<in>set msgs. message_timestamp m \<noteq> InvalidDate"
  shows "groupMessagesByDate lib msgs =
       Inr (concat (map (\<lambda>j.
          (if j = 0 \<or> \<not> isSameDay lib (message_timestamp (msgs ! j)) (message_timestamp (msgs ! (j - 1)))
           then [SeparatorItem \<lparr> separator_date = message_timestamp (msgs ! j),
                   separator_label = projr (formatDateSeparator lib (message_timestamp (msgs ! j))) \<rparr>]
           else []) @ [MessageItem (msgs ! j)]) [0..<length msgs]))"
  using assms by (simp add: groupMessagesByDate_def groupLoop_closed)

lemma groupMessagesByDate_example:
  "groupMessagesByDate (dayLib 172800100)
     [messageAt (js ''m0'') (Instant 5), messageAt (js ''m1'') (Instant 86400005),
      messageAt (js ''m2'') (Instant 86400900), messageAt (js ''m3'') (Instant 172800001)]
   = Inr [SeparatorItem \<lparr> separator_date = Instant 5,
            separator_label = js ''EEEE, MMMM d, yyyy'' \<rparr>,
      MessageItem (messageAt (js ''m0'') (Instant 5)),
      SeparatorItem \<lparr> separator_date = Instant 86400005, separator_label = js ''Yesterday'' \<rparr>,
      MessageItem (messageAt (js ''m1'') (Instant 86400005)),
      MessageItem (messageAt (js ''m2'') (Instant 86400900)),
      SeparatorItem \<lparr> separator_date = Instant 172800001, separator_label = js ''Today'' \<rparr>,
      MessageItem (messageAt (js ''m3'') (Instant 172800001))]"
proof -
  have up: "[0..<4] = [0, 1, 2, 3]"
    by (simp add: upt_rec)
  have l0: "formatDateSeparator (dayLib 172800100) (Instant 5) = Inr (js ''EEEE, MMMM d, yyyy'')"
    by (simp add: formatDateSeparator_valid dayLib_def)
  have l1: "formatDateSeparator (dayLib 172800100) (Instant 86400005) = Inr (js ''Yesterday'')"
    by (simp add: formatDateSeparator_valid dayLib_def)
  have l3: "formatDateSeparator (dayLib 172800100) (Instant 172800001) = Inr (js ''Today'')"
    by (simp add: formatDateSeparator_valid dayLib_def)
  have d: "onSameDay (dayLib 172800100) = (\<lambda>a b. a div 86400000 = b div 86400000)"
    by (simp add: dayLib_def)
  have v: "\<forall>m\<in>set [messageAt (js ''m0'') (Instant 5), messageAt (js ''m1'') (Instant 86400005),
      messageAt (js ''m2'') (Instant 86400900), messageAt (js ''m3'') (Instant 172800001)].
        message_timestamp m \<noteq> InvalidDate"
    by (simp add: messageAt_def)
  show ?thesis
    using groupMessagesByDate_valid_dates [OF v, of "dayLib 172800100"]
    by (simp add: up l0 l1 l3 d isSameDay_def messageAt_def)
qed

section \<open>Filtering channels\<close>

lemma includesStr_sublist: "includesStr s q \<longleftrightarrow> sublist q s"
  by (induction s) (simp_all add: sublist_Cons_right)

text \<open>
  C7: \<open>getFilteredChannels\<close> returns all channels, in their order, when the trimmed search
  query is empty; otherwise it returns exactly the channels whose lower-cased name or
  lower-cased description contains the lower-cased query as a contiguous substring, in
  their original relative order. In both cases the result is a subsequence of the channels.
\<close>

theorem C7_getFilteredChannels:
  "(trim (searchQuery state) = [] \<longrightarrow> getFilteredChannels toLowerCase state = channels state)
   \<and> (trim (searchQuery state) \<noteq> [] \<longrightarrow>
        getFilteredChannels toLowerCase state =
          filter (\<lambda>channel.
              (\<exists>pre post. toLowerCase (channel_name channel)
                  = pre @ toLowerCase (searchQuery state) @ post)
            \<or> (\<exists>pre post. toLowerCase (channel_description channel)
                  = pre @ toLowerCase (searchQuery state) @ post))
            (channels state))
   \<and> subseq (getFilteredChannels toLowerCase state) (channels state)"
  by (simp add: getFilteredChannels_def Let_def includesStr_sublist sublist_def)

theorem C7_witness:
  "trim (searchQuery (searchState (js ''  ''))) = []
   \<and> getFilteredChannels toLowerASCII (searchState (js ''  '')) = twoChannels
   \<and> trim (searchQuery (searchState (js ''TECH''))) \<noteq> []
   \<and> getFilteredChannels toLowerASCII (searchState (js ''TECH'')) = [techChannel]
   \<and> filter (\<lambda>channel.
              (\<exists>pre post. toLowerASCII (channel_name channel) = pre @ toLowerASCII (js ''TECH'') @ post)
            \<or> (\<exists>pre post. toLowerASCII (channel_description channel)
                  = pre @ toLowerASCII (js ''TECH'') @ post)) twoChannels = [techChannel]"
proof -
  have e: "trim (searchQuery (searchState (js ''  ''))) = []"
    by (simp add: searchState_def trim_def js_def isWhiteSpace_def)
  have n: "trim (searchQuery (searchState (js ''TECH''))) \<noteq> []"
    by (simp add: searchState_def trim_def js_def isWhiteSpace_def)
  have v: "getFilteredChannels toLowerASCII (searchState (js ''TECH'')) = [techChannel]"
    using n
    by (simp add: getFilteredChannels_def Let_def searchState_def twoChannels_def
        generalChannel_def techChannel_def toLowerASCII_def js_def)
  have c: "channels (searchState q) = twoChannels" "searchQuery (searchState q) = q" for q
    by (simp_all add: searchState_def)
  from C7_getFilteredChannels [of "searchState (js ''  '')" toLowerASCII] e
  have a: "getFilteredChannels toLowerASCII (searchState (js ''  '')) = twoChannels"
    by (simp add: c)
  from C7_getFilteredChannels [of "searchState (js ''TECH'')" toLowerASCII] n v
  have b: "filter (\<lambda>channel.
              (\<exists>pre post. toLowerASCII (channel_name channel) = pre @ toLowerASCII (js ''TECH'') @ post)
            \<or> (\<exists>pre post. toLowerASCII (channel_description channel)
                  = pre @ toLowerASCII (js ''TECH'') @ post)) twoChannels = [techChannel]"
    by (simp add: c)
  from e n v a b show ?thesis by blast
qed

section \<open>Classifying errors\<close>

lemma regexTest_iff:
  "regexTest canon lits s \<longleftrightarrow> (\<exists>i\<le>length s. ciMatchAt canon lits (drop i s))"
proof (induction s)
  case Nil
  then show ?case by simp
next
  case (Cons c s)
  have "(\<exists>i\<le>length (c # s). ciMatchAt canon lits (drop i (c # s)))
        \<longleftrightarrow> ciMatchAt canon lits (c # s) \<or> (\<exists>i\<le>length s. ciMatchAt canon lits (drop i s))"
  proof
    assume "\<exists>i\<le>length (c # s). ciMatchAt canon lits (drop i (c # s))"
    then obtain i where i: "i \<le> length (c # s)" "ciMatchAt canon lits (drop i (c # s))"
      by blast
    show "ciMatchAt canon lits (c # s) \<or> (\<exists>i\<le>length s. ciMatchAt canon lits (drop i s))"
    proof (cases i)
      case 0
      with i show ?thesis by simp
    next
      case (Suc k)
      with i show ?thesis by auto
    qed
  next
    assume "ciMatchAt canon lits (c # s) \<or> (\<exists>i\<le>length s. ciMatchAt canon lits (drop i s))"
    then show "\<exists>i\<le>length (c # s). ciMatchAt canon lits (drop i (c # s))"
    proof
      assume "ciMatchAt canon lits (c # s)"
      then have "ciMatchAt canon lits (drop 0 (c # s))" by simp
      then show ?thesis by blast
    next
      assume "\<exists>i\<le>length s. ciMatchAt canon lits (drop i s)"
      then obtain i where "i \<le> length s" "ciMatchAt canon lits (drop i s)" by blast
      then have "Suc i \<le> length (c # s) \<and> ciMatchAt canon lits (drop (Suc i) (c # s))" by simp
      then show ?thesis by blast
    qed
  qed
  with Cons show ?case by simp
qed

text \<open>
  C9: an error whose name is \<open>TypeError\<close> is a network error whatever its message; if
  moreover its name is not \<open>ValidationError\<close> and none of the patterns validation, invalid,
  required, format matches its message at any position, case-insensitively, it is retryable.
\<close>

theorem C9_TypeError_is_network_and_retryable:
  "(error_name err = js ''TypeError'' \<longrightarrow> isNetworkError canon err)
   \<and> (error_name err = js ''TypeError'' \<and> error_name err \<noteq> js ''ValidationError''
       \<and> \<not> (\<exists>i\<le>length (error_message err). ciMatchAt canon (js ''validation'') (drop i (error_message err)))
       \<and> \<not> (\<exists>i\<le>length (error_message err). ciMatchAt canon (js ''invalid'') (drop i (error_message err)))
       \<and> \<not> (\<exists>i\<le>length (error_message err). ciMatchAt canon (js ''required'') (drop i (error_message err)))
       \<and> \<not> (\<exists>i\<le>length (error_message err). ciMatchAt canon (js ''format'') (drop i (error_message err)))
      \<longrightarrow> isRetryableError canon err)"
  by (simp add: isNetworkError_def isRetryableError_def isValidationError_def Let_def
      validationErrorPatterns_def regexTest_iff)

theorem C9_witness:
  "error_name typeError = js ''TypeError''
   \<and> error_name typeError \<noteq> js ''ValidationError''
   \<and> \<not> regexTest canonASCII (js ''validation'') (error_message typeError)
   \<and> \<not> regexTest canonASCII (js ''invalid'') (error_message typeError)
   \<and> \<not> regexTest canonASCII (js ''required'') (error_message typeError)
   \<and> \<not> regexTest canonASCII (js ''format'') (error_message typeError)
   \<and> isNetworkError canonASCII typeError
   \<and> isRetryableError canonASCII typeError"
proof -
  have n: "error_name typeError = js ''TypeError''"
    by (simp add: typeError_def)
  have v: "error_name typeError \<noteq> js ''ValidationError''"
    by (simp add: typeError_def js_def)
  have p1: "\<not> regexTest canonASCII (js ''validation'') (error_message typeError)"
    by (simp add: typeError_def js_def ciMatchAt_def canonASCII_def)
  have p2: "\<not> regexTest canonASCII (js ''invalid'') (error_message typeError)"
    by (simp add: typeError_def js_def ciMatchAt_def canonASCII_def)
  have p3: "\<not> regexTest canonASCII (js ''required'') (error_message typeError)"
    by (simp add: typeError_def js_def ciMatchAt_def canonASCII_def)
  have p4: "\<not> regexTest canonASCII (js ''format'') (error_message typeError)"
    by (simp add: typeError_def js_def ciMatchAt_def canonASCII_def)
  from C9_TypeError_is_network_and_retryable [of typeError canonASCII] n v p1 p2 p3 p4
  have "isNetworkError canonASCII typeError \<and> isRetryableError canonASCII typeError"
    by (simp add: regexTest_iff)
  with n v p1 p2 p3 p4 show ?thesis by blast
qed

section \<open>Highlighting search terms\<close>

lemma escaped_iff_syntax: "c \<in> set escapedCharacters \<longleftrightarrow> c \<in> set syntaxCharacters"
  by (auto simp add: escapedCharacters_def syntaxCharacters_def)

lemma backslash_syntax: "List.member syntaxCharacters 0x5C"
  by (simp add: syntaxCharacters_def)

lemma parseLiteralAtoms_plain:
  "\<not> List.member syntaxCharacters c \<Longrightarrow>
   parseLiteralAtoms (c # rest) = map_option ((#) c) (parseLiteralAtoms rest)"
  using backslash_syntax by (cases rest) auto

lemma parseLiteralAtoms_escapeRegExp: "parseLiteralAtoms (escapeRegExp t) = Some t"
proof (induction t)
  case Nil
  then show ?case by (simp add: escapeRegExp_def)
next
  case (Cons c t)
  have step: "escapeRegExp (c # t) =
      (if List.member syntaxCharacters c then [0x5C, c] else [c]) @ escapeRegExp t"
    by (simp add: escapeRegExp_def escaped_iff_syntax)
  show ?case
  proof (cases "List.member syntaxCharacters c")
    case True
    with Cons show ?thesis by (simp add: step)
  next
    case False
    with Cons show ?thesis by (simp add: step parseLiteralAtoms_plain)
  qed
qed

lemma newRegExp_group: "newRegExp (js ''('' @ e @ js '')'') = parseLiteralAtoms e"
  by (simp add: newRegExp_def js_def)

lemma highlightSearchTerm_eq:
  "highlightSearchTerm canon text searchTerm =
     Some (if trim searchTerm = [] \<or> text = [] then text
           else replaceGlobal canon (trim searchTerm) markOpen markClose text)"
  by (simp add: highlightSearchTerm_def Let_def newRegExp_group parseLiteralAtoms_escapeRegExp)

lemma replaceGlobal_Nil: "lits \<noteq> [] \<Longrightarrow> replaceGlobal canon lits b a [] = []"
  by (subst replaceGlobal.simps) simp

lemma replaceGlobal_skip:
  "lits \<noteq> [] \<Longrightarrow> \<not> ciMatchAt canon lits (c # s) \<Longrightarrow>
   replaceGlobal canon lits b a (c # s) = c # replaceGlobal canon lits b a s"
  by (subst replaceGlobal.simps) simp

lemma replaceGlobal_hit:
  "lits \<noteq> [] \<Longrightarrow> ciMatchAt canon lits s \<Longrightarrow>
   replaceGlobal canon lits b a s =
     b @ take (length lits) s @ a @ replaceGlobal canon lits b a (drop (length lits) s)"
  by (subst replaceGlobal.simps) (auto simp add: ciMatchAt_def)

lemma replaceGlobal_no_match:
  "lits \<noteq> [] \<Longrightarrow> \<forall>i\<le>length s. \<not> ciMatchAt canon lits (drop i s) \<Longrightarrow>
   replaceGlobal canon lits b a s = s"
proof (induction s)
  case Nil
  then show ?case by (simp add: replaceGlobal_Nil)
next
  case (Cons c s)
  from Cons.prems(2) have here: "\<not> ciMatchAt canon lits (c # s)"
    by (metis drop0 le0)
  have rest: "\<forall>i\<le>length s. \<not> ciMatchAt canon lits (drop i s)"
  proof (intro allI impI)
    fix i assume "i \<le> length s"
    then have "Suc i \<le> length (c # s)" by simp
    with Cons.prems(2) have "\<not> ciMatchAt canon lits (drop (Suc i) (c # s))" by blast
    then show "\<not> ciMatchAt canon lits (drop i s)" by simp
  qed
  show ?case
    using Cons.IH [OF Cons.prems(1) rest] here Cons.prems(1)
    by (simp add: replaceGlobal_skip)
qed

lemma replaceGlobal_first_match:
  "lits \<noteq> [] \<Longrightarrow> \<forall>j<i. \<not> ciMatchAt canon lits (drop j s) \<Longrightarrow>
   ciMatchAt canon lits (drop i s) \<Longrightarrow>
   replaceGlobal canon lits b a s =
     take i s @ b @ take (length lits) (drop i s) @ a
       @ replaceGlobal canon lits b a (drop (i + length lits) s)"
proof (induction i arbitrary: s)
  case 0
  then show ?case
    using replaceGlobal_hit [of lits canon s b a] by simp
next
  case (Suc i)
  from Suc.prems(1,3) have "drop (Suc i) s \<noteq> []"
    by (auto simp add: ciMatchAt_def)
  then obtain c t where s: "s = c # t"
    by (cases s) auto
  from Suc.prems(2) have here: "\<not> ciMatchAt canon lits (c # t)"
    using s by (metis drop0 zero_less_Suc)
  have before: "\<forall>j<i. \<not> ciMatchAt canon lits (drop j t)"
  proof (intro allI impI)
    fix j assume "j < i"
    then have "Suc j < Suc i" by simp
    with Suc.prems(2) have "\<not> ciMatchAt canon lits (drop (Suc j) s)" by blast
    then show "\<not> ciMatchAt canon lits (drop j t)" using s by simp
  qed
  from Suc.prems(3) have at: "ciMatchAt canon lits (drop i t)"
    using s by simp
  show ?case
    using Suc.IH [OF Suc.prems(1) before at] here Suc.prems(1)
    by (simp add: s replaceGlobal_skip)
qed

text \<open>
  C6 (as stated): for a non-empty text and a non-empty term, every case-insensitive
  occurrence of the term in the text is wrapped in the marker. This fails for a term with
  surrounding whitespace, which is trimmed before matching: the term of one space occurs
  in the text \<open>a b\<close>, yet the text is returned unchanged.
\<close>

theorem C6_counterexample:
  "js ''a b'' \<noteq> [] \<and> js '' '' \<noteq> []
   \<and> ciMatchAt canonASCII (js '' '') (drop 1 (js ''a b''))
   \<and> highlightSearchTerm canonASCII (js ''a b'') (js '' '') = Some (js ''a b'')"
  by (simp add: highlightSearchTerm_def trim_def isWhiteSpace_def js_def ciMatchAt_def)

text \<open>
  C6 (amended): \<open>highlightSearchTerm\<close> returns the text unchanged for the empty term and
  for the empty text. The regular expression built from the escaped trimmed term matches
  exactly the code units of the trimmed term, so the term is searched literally. For a
  non-empty text and a term that is non-empty after trimming, the case-insensitive
  occurrences of the trimmed term are wrapped from left to right without overlap: if the
  trimmed term occurs nowhere the text is returned unchanged, and if its leftmost
  occurrence starts at position i, the result is the text before i, the marker around the
  matched code units as they stand in the text, and the highlighting of the text behind
  the match.
\<close>

theorem C6_highlightSearchTerm:
  "highlightSearchTerm canon text [] = Some text
   \<and> highlightSearchTerm canon [] term = Some []
   \<and> newRegExp (js ''('' @ escapeRegExp (trim term) @ js '')'') = Some (trim term)
   \<and> (text \<noteq> [] \<and> trim term \<noteq> []
        \<and> (\<forall>i\<le>length text. \<not> ciMatchAt canon (trim term) (drop i text))
      \<longrightarrow> highlightSearchTerm canon text term = Some text)
   \<and> (text \<noteq> [] \<and> trim term \<noteq> []
        \<and> (\<forall>j<i. \<not> ciMatchAt canon (trim term) (drop j text))
        \<and> ciMatchAt canon (trim term) (drop i text)
      \<longrightarrow> (\<exists>rest. highlightSearchTerm canon (drop (i + length (trim term)) text) term = Some rest
            \<and> highlightSearchTerm canon text term =
                Some (take i text @ markOpen @ take (length (trim term)) (drop i text)
                        @ markClose @ rest)))"
proof -
  have a: "highlightSearchTerm canon text [] = Some text"
    by (simp add: highlightSearchTerm_eq trim_Nil)
  have b: "highlightSearchTerm canon [] term = Some []"
    by (simp add: highlightSearchTerm_eq)
  have c: "newRegExp (js ''('' @ escapeRegExp (trim term) @ js '')'') = Some (trim term)"
    by (simp add: newRegExp_group parseLiteralAtoms_escapeRegExp)
  have d: "text \<noteq> [] \<and> trim term \<noteq> []
        \<and> (\<forall>i\<le>length text. \<not> ciMatchAt canon (trim term) (drop i text))
      \<longrightarrow> highlightSearchTerm canon text term = Some text"
    by (simp add: highlightSearchTerm_eq replaceGlobal_no_match)
  have e: "text \<noteq> [] \<and> trim term \<noteq> []
        \<and> (\<forall>j<i. \<not> ciMatchAt canon (trim term) (drop j text))
        \<and> ciMatchAt canon (trim term) (drop i text)
      \<longrightarrow> (\<exists>rest. highlightSearchTerm canon (drop (i + length (trim term)) text) term = Some rest
            \<and> highlightSearchTerm canon text term =
                Some (take i text @ markOpen @ take (length (trim term)) (drop i text)
                        @ markClose @ rest))"
  proof (intro impI)
    assume h: "text \<noteq> [] \<and> trim term \<noteq> []
        \<and> (\<forall>j<i. \<not> ciMatchAt canon (trim term) (drop j text))
        \<and> ciMatchAt canon (trim term) (drop i text)"
    then have ne: "trim term \<noteq> []" and tn: "text \<noteq> []"
      and bf: "\<forall>j<i. \<not> ciMatchAt canon (trim term) (drop j text)"
      and at: "ciMatchAt canon (trim term) (drop i text)"
      by blast+
    have r: "highlightSearchTerm canon (drop (i + length (trim term)) text) term
          = Some (replaceGlobal canon (trim term) markOpen markClose (drop (i + length (trim term)) text))"
      using ne by (simp add: highlightSearchTerm_eq replaceGlobal_Nil)
    have w: "highlightSearchTerm canon text term =
        Some (take i text @ markOpen @ take (length (trim term)) (drop i text) @ markClose
          @ replaceGlobal canon (trim term) markOpen markClose (drop (i + length (trim term)) text))"
      using ne tn replaceGlobal_first_match [OF ne bf at, of markOpen markClose]
      by (simp add: highlightSearchTerm_eq)
    from r w show "\<exists>rest. highlightSearchTerm canon (drop (i + length (trim term)) text) term = Some rest
            \<and> highlightSearchTerm canon text term =
                Some (take i text @ markOpen @ take (length (trim term)) (drop i text)
                        @ markClose @ rest)"
      by blast
  qed
  from a b c d e show ?thesis by blast
qed

theorem C6_witness:
  "trim (js '' ab '') = js ''ab''
   \<and> \<not> regexTest canonASCII (js ''ab'') (js ''xyz'')
   \<and> highlightSearchTerm canonASCII (js ''xyz'') (js '' ab '') = Some (js ''xyz'')
   \<and> ciMatchAt canonASCII (js ''ab'') (drop 2 (js ''x Ab ab''))
   \<and> highlightSearchTerm canonASCII (js ''x Ab ab'') (js '' ab '')
       = Some (js ''x '' @ markOpen @ js ''Ab'' @ markClose @ js '' '' @ markOpen @ js ''ab''
                 @ markClose)"
proof -
  have t: "trim (js '' ab '') = js ''ab''"
    by (simp add: trim_def js_def isWhiteSpace_def)
  have ne: "js ''ab'' \<noteq> []" "js ''xyz'' \<noteq> []" "js ''x Ab ab'' \<noteq> []"
    by (simp_all add: js_def)
  have n: "\<not> regexTest canonASCII (js ''ab'') (js ''xyz'')"
    by (simp add: js_def ciMatchAt_def canonASCII_def)
  then have n': "\<forall>i\<le>length (js ''xyz''). \<not> ciMatchAt canonASCII (js ''ab'') (drop i (js ''xyz''))"
    by (simp add: regexTest_iff)
  from C6_highlightSearchTerm [of canonASCII "js ''xyz''" "js '' ab ''" 0] t ne n'
  have a: "highlightSearchTerm canonASCII (js ''xyz'') (js '' ab '') = Some (js ''xyz'')"
    by simp
  have m: "ciMatchAt canonASCII (js ''ab'') (drop 2 (js ''x Ab ab''))"
    by (simp add: js_def ciMatchAt_def canonASCII_def)
  have b0: "\<not> ciMatchAt canonASCII (js ''ab'') (drop 0 (js ''x Ab ab''))"
    by (simp add: js_def ciMatchAt_def canonASCII_def)
  have b1: "\<not> ciMatchAt canonASCII (js ''ab'') (drop 1 (js ''x Ab ab''))"
    by (simp add: js_def ciMatchAt_def canonASCII_def)
  have bf: "\<forall>j<2. \<not> ciMatchAt canonASCII (js ''ab'') (drop j (js ''x Ab ab''))"
  proof (intro allI impI)
    fix j :: nat assume "j < 2"
    then have "j = 0 \<or> j = 1" by arith
    with b0 b1 show "\<not> ciMatchAt canonASCII (js ''ab'') (drop j (js ''x Ab ab''))" by auto
  qed
  have l: "length (js ''ab'') = 2"
    by (simp add: js_def)
  have r: "highlightSearchTerm canonASCII (drop (2 + 2) (js ''x Ab ab'')) (js '' ab '')
            = Some (js '' '' @ markOpen @ js ''ab'' @ markClose)"
    by (simp add: highlightSearchTerm_eq t)
       (simp add: js_def replaceGlobal.simps ciMatchAt_def canonASCII_def)
  have tk: "take 2 (js ''x Ab ab'') = js ''x ''" "take 2 (drop 2 (js ''x Ab ab'')) = js ''Ab''"
    by (simp_all add: js_def)
  from C6_highlightSearchTerm [of canonASCII "js ''x Ab ab''" "js '' ab ''" 2] t ne bf m
  have "\<exists>rest. highlightSearchTerm canonASCII (drop (2 + length (js ''ab'')) (js ''x Ab ab'')) (js '' ab '')
              = Some rest
            \<and> highlightSearchTerm canonASCII (js ''x Ab ab'') (js '' ab '') =
                Some (take 2 (js ''x Ab ab'') @ markOpen @ take (length (js ''ab'')) (drop 2 (js ''x Ab ab''))
                        @ markClose @ rest)"
    by simp
  then have b: "highlightSearchTerm canonASCII (js ''x Ab ab'') (js '' ab '')
       = Some (js ''x '' @ markOpen @ js ''Ab'' @ markClose @ js '' '' @ markOpen @ js ''ab''
                 @ markClose)"
    using r by (auto simp add: l tk)
  from t n a m b show ?thesis by blast
qed

text \<open>
  C10: \<open>highlightSearchTerm\<close> trims the search term before matching: a term of whitespace
  only returns the text unchanged, and highlighting by a term equals highlighting by its
  trimmed core.
\<close>

theorem C10_highlight_trims_term:
  "(trim term = [] \<longrightarrow> highlightSearchTerm canon text term = Some text)
   \<and> highlightSearchTerm canon text term = highlightSearchTerm canon text (trim term)"
  by (simp add: highlightSearchTerm_eq trim_trim)

theorem C10_witness:
  "trim (js ''  '') = []
   \<and> highlightSearchTerm canonASCII (js ''a foo b'') (js ''  '') = Some (js ''a foo b'')
   \<and> trim (js '' foo '') = js ''foo''
   \<and> highlightSearchTerm canonASCII (js ''a foo b'') (js '' foo '')
       = highlightSearchTerm canonASCII (js ''a foo b'') (js ''foo'')
   \<and> highlightSearchTerm canonASCII (js ''a foo b'') (js ''foo'')
       = Some (js ''a '' @ markOpen @ js ''foo'' @ markClose @ js '' b'')"
proof -
  have e: "trim (js ''  '') = []"
    by (simp add: trim_def js_def isWhiteSpace_def)
  have t: "trim (js '' foo '') = js ''foo''"
    by (simp add: trim_def js_def isWhiteSpace_def)
  have t2: "trim (js ''foo'') = js ''foo''"
    by (simp add: trim_def js_def isWhiteSpace_def)
  have v: "highlightSearchTerm canonASCII (js ''a foo b'') (js ''foo'')
       = Some (js ''a '' @ markOpen @ js ''foo'' @ markClose @ js '' b'')"
    by (simp add: highlightSearchTerm_eq t2)
       (simp add: js_def replaceGlobal.simps ciMatchAt_def canonASCII_def)
  from C10_highlight_trims_term [of "js ''  ''" canonASCII "js ''a foo b''"] e
  have a: "highlightSearchTerm canonASCII (js ''a foo b'') (js ''  '') = Some (js ''a foo b'')"
    by simp
  from C10_highlight_trims_term [of "js '' foo ''" canonASCII "js ''a foo b''"] t
  have b: "highlightSearchTerm canonASCII (js ''a foo b'') (js '' foo '')
       = highlightSearchTerm canonASCII (js ''a foo b'') (js ''foo'')"
    by simp
  from e a t b v show ?thesis by blast
qed

end
